(* ===== verification/Prelude.thy ===== *)
theory Prelude
  imports Main
begin

text \<open>
  Shared vocabulary of the development: the types that name the program's data
  (the process environment, JavaScript timestamps), the one error type that every
  fallible step of \<^verbatim>\<open>src/src/index.ts\<close> returns into, JavaScript's notion of a
  falsy string, ASCII case folding as the router uses it, and the string scanners
  (split at a separator, join with a separator) that the URL and query-string
  models are built from, with their round-trip lemmas.
\<close>

named_theorems model_defs "definitions unfolded when a concrete run is evaluated"

section \<open>Types of the model\<close>

text \<open>
  \<^verbatim>\<open>process.env\<close> maps variable names to strings or \<^verbatim>\<open>undefined\<close>: a partial map.
  A JavaScript \<^verbatim>\<open>Date\<close> is a number of milliseconds since the epoch, read through
  \<^verbatim>\<open>getTime()\<close> or \<^verbatim>\<open>valueOf()\<close>: an \<open>int\<close>.
\<close>

type_synonym env = "string \<Rightarrow> string option"
type_synonym ms = int

text \<open>
  Every way the program stops with an exception or a rejected promise, by the place
  where it is raised.
\<close>

datatype error =
    ConfigMissing
      \<comment> \<open>\<^verbatim>\<open>throw new Error("make sure to set up your .env file")\<close>, line 26\<close>
  | KeyServiceError string
      \<comment> \<open>\<^verbatim>\<open>getUserDelegationKey\<close> rejects (identity or network failure), line 34\<close>
  | InvalidPermission char
      \<comment> \<open>\<^verbatim>\<open>ContainerSASPermissions.parse\<close> meets an unknown letter, line 38\<close>
  | SasRangeError
      \<comment> \<open>\<^verbatim>\<open>generateBlobSASQueryParameters\<close> without permissions or expiry, line 35\<close>
  | FileReadError string
      \<comment> \<open>\<^verbatim>\<open>readFileSync\<close> of the TLS key or certificate fails, lines 69--70\<close>
  | TlsError
      \<comment> \<open>\<^verbatim>\<open>https.createServer\<close> rejects the key, certificate or passphrase, line 67\<close>
  | ListenError
      \<comment> \<open>the listener cannot bind \<^verbatim>\<open>local.teams.office.com:443\<close>, line 75\<close>

section \<open>JavaScript truthiness of an environment value\<close>

text \<open>\<^verbatim>\<open>!x\<close> holds for \<^verbatim>\<open>undefined\<close> and for the empty string.\<close>

definition js_falsy :: "string option \<Rightarrow> bool" where
  "js_falsy v \<longleftrightarrow> v = None \<or> v = Some []"

section \<open>ASCII case folding\<close>

text \<open>
  A JavaScript regular expression with the \<^verbatim>\<open>i\<close> flag compares an ASCII pattern
  character with an input character up to ASCII case; other characters compare
  exactly. \<open>ascii_lower\<close> maps \<^verbatim>\<open>A\<close>..\<^verbatim>\<open>Z\<close> to \<^verbatim>\<open>a\<close>..\<^verbatim>\<open>z\<close>.
\<close>

definition ascii_lower :: "char \<Rightarrow> char" where
  "ascii_lower c =
     (let n = (of_char c :: nat) in if 65 \<le> n \<and> n \<le> 90 then char_of (n + 32) else c)"

section \<open>Splitting and joining at a separator\<close>

text \<open>
  \<open>split_on c s\<close> is JavaScript's \<^verbatim>\<open>s.split(c)\<close> for a one-character separator:
  never empty, one more piece than there are separators. \<open>join_on c ws\<close> is
  \<^verbatim>\<open>ws.join(c)\<close>.
\<close>

fun split_on :: "char \<Rightarrow> string \<Rightarrow> string list" where
  "split_on c [] = [[]]"
| "split_on c (x # xs) =
     (if x = c then [] # split_on c xs
      else (case split_on c xs of [] \<Rightarrow> [[x]] | w # ws \<Rightarrow> (x # w) # ws))"

fun join_on :: "char \<Rightarrow> string list \<Rightarrow> string" where
  "join_on c [] = []"
| "join_on c [w] = w"
| "join_on c (w # v # ws) = w @ c # join_on c (v # ws)"

section \<open>Breaking a string at its first separator\<close>

text \<open>
  The part before the first \<open>c\<close> and the part after it (\<open>None\<close> when there is no
  \<open>c\<close>): how a URL splits into path and query at its first \<^verbatim>\<open>?\<close>, and a query
  parameter into name and value at its first \<^verbatim>\<open>=\<close>.
\<close>

definition before_sep :: "char \<Rightarrow> string \<Rightarrow> string" where
  "before_sep c s = takeWhile (\<lambda>x. x \<noteq> c) s"

definition after_sep :: "char \<Rightarrow> string \<Rightarrow> string option" where
  "after_sep c s = (case dropWhile (\<lambda>x. x \<noteq> c) s of [] \<Rightarrow> None | _ # r \<Rightarrow> Some r)"

section \<open>Lemmas\<close>

lemma js_falsy_iff [simp]:
  "js_falsy v \<longleftrightarrow> (case v of None \<Rightarrow> True | Some s \<Rightarrow> s = [])"
  by (auto simp: js_falsy_def split: option.splits)

lemma not_js_falsy_Some:
  "\<not> js_falsy v \<Longrightarrow> \<exists>s. v = Some s \<and> s \<noteq> []"
  by (cases v) auto

lemma ascii_lower_idem [simp]: "ascii_lower (ascii_lower c) = ascii_lower c"
proof -
  have "of_char c < (256::nat)" by (rule nat_of_char_less_256)
  then show ?thesis
    by (auto simp: ascii_lower_def Let_def of_char_of)
qed

lemma ascii_lower_slash [simp]: "ascii_lower c = CHR ''/'' \<longleftrightarrow> c = CHR ''/''"
proof -
  have "of_char c < (256::nat)" by (rule nat_of_char_less_256)
  moreover have "(of_char (CHR ''/'') :: nat) = 47" by simp
  ultimately show ?thesis
    by (auto simp: ascii_lower_def Let_def of_char_of dest: arg_cong [where f = "of_char :: char \<Rightarrow> nat"])
qed

lemma char_of_eq_iff: "char_of m = c \<longleftrightarrow> m mod 256 = (of_char c :: nat)"
  by (metis char_of_char char_of_mod_256 of_char_of)

lemma eq_char_of_iff: "c = char_of m \<longleftrightarrow> m mod 256 = (of_char c :: nat)"
  by (metis char_of_eq_iff)

lemma split_on_not_Nil [simp]: "split_on c s \<noteq> []"
  by (induction s) (auto split: list.splits)

lemma join_split_on [simp]: "join_on c (split_on c s) = s"
proof (induction s)
  case Nil
  then show ?case by simp
next
  case (Cons x xs)
  show ?case
  proof (cases "split_on c xs")
    case Nil
    then show ?thesis by simp
  next
    case (Cons w ws)
    with "Cons.IH" show ?thesis by (cases ws) auto
  qed
qed

lemma split_on_append_sep:
  "c \<notin> set w \<Longrightarrow> split_on c (w @ c # s) = w # split_on c s"
  by (induction w) auto

lemma split_on_no_sep [simp]: "c \<notin> set w \<Longrightarrow> split_on c w = [w]"
  by (induction w) auto

lemma split_join_on:
  "ws \<noteq> [] \<Longrightarrow> \<forall>w\<in>set ws. c \<notin> set w \<Longrightarrow> split_on c (join_on c ws) = ws"
proof (induction ws rule: induct_list012)
  case 1
  then show ?case by simp
next
  case (2 w)
  then show ?case by simp
next
  case (3 w v ws)
  then show ?case by (simp add: split_on_append_sep)
qed

lemma before_sep_append_sep [simp]:
  "c \<notin> set w \<Longrightarrow> before_sep c (w @ c # s) = w"
  by (induction w) (auto simp: before_sep_def)

lemma after_sep_append_sep [simp]:
  "c \<notin> set w \<Longrightarrow> after_sep c (w @ c # s) = Some s"
  by (induction w) (auto simp: after_sep_def)

lemma before_sep_no_sep [simp]: "c \<notin> set w \<Longrightarrow> before_sep c w = w"
  by (induction w) (auto simp: before_sep_def)

lemma after_sep_no_sep [simp]: "c \<notin> set w \<Longrightarrow> after_sep c w = None"
  by (induction w) (auto simp: after_sep_def)

lemma sep_decompose:
  "c \<in> set s \<Longrightarrow> \<exists>w r. s = w @ c # r \<and> c \<notin> set w"
  by (metis split_list_first)

lemma before_sep_no_sep_result [simp]: "c \<notin> set (before_sep c s)"
  by (auto simp: before_sep_def dest: set_takeWhileD)

lemma set_join_on: "set (join_on c ws) \<subseteq> insert c (\<Union>w\<in>set ws. set w)"
  by (induction c ws rule: join_on.induct) auto

lemma split_on_append:
  "split_on c (xs @ ys) =
     butlast (split_on c xs) @ [last (split_on c xs) @ hd (split_on c ys)] @ tl (split_on c ys)"
proof (induction xs)
  case Nil
  then show ?case by (cases "split_on c ys") simp_all
next
  case (Cons x xs)
  obtain w ws where s: "split_on c xs = w # ws"
    using split_on_not_Nil [of c xs] by (cases "split_on c xs") auto
  show ?case
  proof (cases "x = c")
    case True
    with Cons s show ?thesis by simp
  next
    case False
    with Cons s show ?thesis by (cases ws) (auto split: list.splits)
  qed
qed

text \<open>A prefix of a list that is already as long as asked stays the prefix of any
  extension: what a log keeps of its first lines as lines are appended.\<close>

lemma take_append_full [simp]:
  "take n xs = ys \<Longrightarrow> length ys = n \<Longrightarrow> take n (xs @ zs) = ys"
  by (auto simp: take_append)

end
