(* ===== verification/Config.thy ===== *)
theory Config
  imports Prelude
begin

text \<open>
  Configuration loading, \<^verbatim>\<open>src/src/index.ts\<close> lines 14--27: \<^verbatim>\<open>dotenv.config()\<close>
  merges the \<^verbatim>\<open>.env\<close> file into \<^verbatim>\<open>process.env\<close>, six variables are read, and the
  module throws before anything else runs when one of them is falsy. The result is
  the \<open>config\<close> record the rest of the program reads.
\<close>

section \<open>\<^verbatim>\<open>dotenv.config()\<close> (line 16)\<close>

text \<open>
  dotenv copies each variable of the file into \<^verbatim>\<open>process.env\<close> unless the process
  environment already defines it: the process environment wins.
\<close>

definition dotenv_config :: "env \<Rightarrow> env \<Rightarrow> env" where
  "dotenv_config dotenv_file process_env =
     (\<lambda>k. case process_env k of None \<Rightarrow> dotenv_file k | Some v \<Rightarrow> Some v)"

section \<open>The configuration record (lines 18--23)\<close>

record config =
  StorageAccount :: string
  StorageContainer :: string
  SslKey :: string
  SslCert :: string
  SslPassphrase :: string
  SslHost :: string

definition config_vars :: "string list" where
  "config_vars =
     [''STORAGE_ACCOUNT'', ''BLOB_CONTAINER'', ''SSL_KEY'', ''SSL_CERT'',
      ''SSL_PASSPHRASE'', ''SSL_HOST'']"

text \<open>
  Lines 18--27: read the six variables; if any is \<^verbatim>\<open>undefined\<close> or empty, throw.
  After the guard TypeScript narrows each constant to \<^verbatim>\<open>string\<close>, which is the
  record built in the \<open>else\<close> branch.
\<close>

definition load_config :: "env \<Rightarrow> error + config" where
  "load_config e =
     (let account = e ''STORAGE_ACCOUNT'';
          container = e ''BLOB_CONTAINER'';
          key = e ''SSL_KEY'';
          cert = e ''SSL_CERT'';
          passphrase = e ''SSL_PASSPHRASE'';
          host = e ''SSL_HOST''
      in if js_falsy account \<or> js_falsy container \<or> js_falsy key \<or> js_falsy cert
            \<or> js_falsy passphrase \<or> js_falsy host
         then Inl ConfigMissing
         else Inr \<lparr>StorageAccount = the account, StorageContainer = the container,
                   SslKey = the key, SslCert = the cert, SslPassphrase = the passphrase,
                   SslHost = the host\<rparr>)"

text \<open>What a loaded configuration says about the environment it came from.\<close>

definition config_of_env :: "config \<Rightarrow> env \<Rightarrow> bool" where
  "config_of_env cfg e \<longleftrightarrow>
     e ''STORAGE_ACCOUNT'' = Some (StorageAccount cfg) \<and> StorageAccount cfg \<noteq> [] \<and>
     e ''BLOB_CONTAINER'' = Some (StorageContainer cfg) \<and> StorageContainer cfg \<noteq> [] \<and>
     e ''SSL_KEY'' = Some (SslKey cfg) \<and> SslKey cfg \<noteq> [] \<and>
     e ''SSL_CERT'' = Some (SslCert cfg) \<and> SslCert cfg \<noteq> [] \<and>
     e ''SSL_PASSPHRASE'' = Some (SslPassphrase cfg) \<and> SslPassphrase cfg \<noteq> [] \<and>
     e ''SSL_HOST'' = Some (SslHost cfg) \<and> SslHost cfg \<noteq> []"

text \<open>An environment with every variable set, as a deployment's \<^verbatim>\<open>.env\<close> has it.\<close>

definition example_env :: env where
  "example_env =
     map_of [(''STORAGE_ACCOUNT'', ''contoso''), (''BLOB_CONTAINER'', ''sourcemaps''),
             (''SSL_KEY'', ''key.pem''), (''SSL_CERT'', ''cert.pem''),
             (''SSL_PASSPHRASE'', ''secret''), (''SSL_HOST'', ''localhost'')]"

section \<open>Lemmas\<close>

lemma dotenv_config_process_wins:
  "process_env k = Some v \<Longrightarrow> dotenv_config f process_env k = Some v"
  by (simp add: dotenv_config_def)

lemma dotenv_config_file_fills:
  "process_env k = None \<Longrightarrow> dotenv_config f process_env k = f k"
  by (simp add: dotenv_config_def)

lemma load_config_guard:
  "(\<exists>n\<in>set config_vars. js_falsy (e n)) \<longleftrightarrow>
     js_falsy (e ''STORAGE_ACCOUNT'') \<or> js_falsy (e ''BLOB_CONTAINER'') \<or>
     js_falsy (e ''SSL_KEY'') \<or> js_falsy (e ''SSL_CERT'') \<or>
     js_falsy (e ''SSL_PASSPHRASE'') \<or> js_falsy (e ''SSL_HOST'')"
  unfolding config_vars_def by (simp only: list.set insert_iff bex_simps empty_iff) blast

section \<open>Properties of configuration loading\<close>

text \<open>
  C4. Startup fails exactly when one of the six variables is missing or empty, and
  the only error is the one of line 26; each omission alone is enough.
\<close>

theorem load_config_fails:
  "load_config e = Inl err \<longleftrightarrow> err = ConfigMissing \<and> (\<exists>n\<in>set config_vars. js_falsy (e n))"
  unfolding load_config_guard by (auto simp: load_config_def Let_def)

theorem load_config_fails_witness:
  "load_config (example_env(''SSL_HOST'' := Some [])) = Inl ConfigMissing \<and>
   (\<exists>n\<in>set config_vars. js_falsy ((example_env(''SSL_HOST'' := Some [])) n)) \<and>
   \<not> (\<exists>n\<in>set config_vars. js_falsy (example_env n)) \<and>
   (\<forall>err. load_config example_env \<noteq> Inl err)"
proof -
  have miss: "\<exists>n\<in>set config_vars. js_falsy ((example_env(''SSL_HOST'' := Some [])) n)"
    by (simp add: config_vars_def)
  have full: "\<not> (\<exists>n\<in>set config_vars. js_falsy (example_env n))"
    by (simp add: config_vars_def example_env_def)
  show ?thesis
    using load_config_fails [of "example_env(''SSL_HOST'' := Some [])" ConfigMissing]
      load_config_fails [of example_env] miss full
    by blast
qed

text \<open>
  C10. Loading succeeds exactly with the configuration whose six fields are the six
  variables' values, all non-empty.
\<close>

theorem load_config_succeeds:
  "load_config e = Inr cfg \<longleftrightarrow> config_of_env cfg e"
  by (cases cfg) (auto simp: load_config_def config_of_env_def Let_def split: option.splits)

theorem load_config_succeeds_witness:
  "load_config example_env =
     Inr \<lparr>StorageAccount = ''contoso'', StorageContainer = ''sourcemaps'', SslKey = ''key.pem'',
          SslCert = ''cert.pem'', SslPassphrase = ''secret'', SslHost = ''localhost''\<rparr> \<and>
   config_of_env \<lparr>StorageAccount = ''contoso'', StorageContainer = ''sourcemaps'', SslKey = ''key.pem'',
          SslCert = ''cert.pem'', SslPassphrase = ''secret'', SslHost = ''localhost''\<rparr> example_env"
proof -
  have c: "config_of_env \<lparr>StorageAccount = ''contoso'', StorageContainer = ''sourcemaps'', SslKey = ''key.pem'',
          SslCert = ''cert.pem'', SslPassphrase = ''secret'', SslHost = ''localhost''\<rparr> example_env"
    by (simp add: config_of_env_def example_env_def)
  then show ?thesis
    using load_config_succeeds by blast
qed

text \<open>
  C22. The process environment takes precedence over the \<^verbatim>\<open>.env\<close> file: when the
  process environment defines all six variables, the configuration is theirs,
  whatever the file says.
\<close>

theorem process_env_overrides_dotenv:
  "config_of_env cfg pe \<Longrightarrow> load_config (dotenv_config f pe) = Inr cfg"
  by (cases cfg) (simp add: load_config_def config_of_env_def dotenv_config_def Let_def)

theorem process_env_overrides_dotenv_witness:
  "config_of_env \<lparr>StorageAccount = ''contoso'', StorageContainer = ''sourcemaps'', SslKey = ''key.pem'',
          SslCert = ''cert.pem'', SslPassphrase = ''secret'', SslHost = ''localhost''\<rparr> example_env \<and>
   load_config (dotenv_config (map_of [(''STORAGE_ACCOUNT'', ''fabrikam''), (''SSL_HOST'', ''[::1]'')])
       example_env) =
     Inr \<lparr>StorageAccount = ''contoso'', StorageContainer = ''sourcemaps'', SslKey = ''key.pem'',
          SslCert = ''cert.pem'', SslPassphrase = ''secret'', SslHost = ''localhost''\<rparr>"
proof -
  have c: "config_of_env \<lparr>StorageAccount = ''contoso'', StorageContainer = ''sourcemaps'', SslKey = ''key.pem'',
          SslCert = ''cert.pem'', SslPassphrase = ''secret'', SslHost = ''localhost''\<rparr> example_env"
    by (simp add: config_of_env_def example_env_def)
  show ?thesis
    using c process_env_overrides_dotenv [OF c] by blast
qed

end
