(* ===== verification/Proxy.thy ===== *)
theory Proxy
  imports Config
begin

text \<open>
  The rewriting proxy, \<^verbatim>\<open>src/src/index.ts\<close> lines 53--65: an express application with
  one middleware mounted at \<^verbatim>\<open>"/" + StorageContainer\<close>, created by
  \<^verbatim>\<open>createProxyMiddleware\<close> with the blob endpoint as target, \<^verbatim>\<open>changeOrigin\<close> and a
  \<^verbatim>\<open>pathRewrite\<close> closure that logs and appends \<^verbatim>\<open>"?" + sasQueryParams\<close>.

  The libraries are modelled by what this program uses of them:
  \<^item> express matches a mount path against the request's pathname (the URL before
    \<^verbatim>\<open>?\<close> or \<^verbatim>\<open>#\<close>) with a case-insensitive regular expression that is not anchored at
    the end but requires the match to stop at \<^verbatim>\<open>/\<close> or at the end of the pathname;
    a request no layer matches gets express's default 404;
  \<^item> http-proxy-middleware (v2) sets \<^verbatim>\<open>req.url\<close> back to \<^verbatim>\<open>req.originalUrl\<close> (mount
    prefix and query string included), passes it to \<^verbatim>\<open>pathRewrite\<close>, and forwards to the
    target with the rewritten path; with \<^verbatim>\<open>changeOrigin\<close> the \<^verbatim>\<open>Host\<close> header becomes
    the target's host; its constructor logs one \<^verbatim>\<open>[HPM] Proxy created\<close> line.
  Container names consist of lowercase letters, digits and hyphens, which the
  mount's regular expression takes literally.
\<close>

section \<open>Requests and responses\<close>

text \<open>An inbound request: its method, its URL as sent (\<^verbatim>\<open>req.originalUrl\<close>) and its
  \<^verbatim>\<open>Host\<close> header.\<close>

record request =
  req_method :: string
  req_url :: string
  req_host :: string

text \<open>The request the proxy sends upstream: origin, method, path and \<^verbatim>\<open>Host\<close>.\<close>

record upstream =
  up_origin :: string
  up_method :: string
  up_path :: string
  up_host :: string

datatype response = NotFound | Proxied upstream

section \<open>URLs\<close>

text \<open>\<^verbatim>\<open>parseurl(req).pathname\<close>: the URL up to its query or fragment.\<close>

definition url_pathname :: "string \<Rightarrow> string" where
  "url_pathname u = takeWhile (\<lambda>c. c \<noteq> CHR ''?'' \<and> c \<noteq> CHR ''#'') u"

text \<open>The host of an \<^verbatim>\<open>http(s)://host/...\<close> URL, as http-proxy reads it from the target.\<close>

definition origin_host :: "string \<Rightarrow> string" where
  "origin_host t =
     before_sep CHR ''/''
       (if take 8 t = ''https://'' then drop 8 t
        else if take 7 t = ''http://'' then drop 7 t else t)"

section \<open>The express mount (line 56)\<close>

text \<open>Strip a pattern from the front of a string, comparing up to ASCII case.\<close>

fun strip_prefix_ci :: "string \<Rightarrow> string \<Rightarrow> string option" where
  "strip_prefix_ci [] s = Some s"
| "strip_prefix_ci (p # ps) [] = None"
| "strip_prefix_ci (p # ps) (c # cs) =
     (if ascii_lower p = ascii_lower c then strip_prefix_ci ps cs else None)"

text \<open>
  \<^verbatim>\<open>app.use(path, fn)\<close> builds the layer regular expression
  \<^verbatim>\<open>^<path>\/?(?=\/|$)\<close> with flag \<^verbatim>\<open>i\<close>: the mount path, up to case, followed by the
  end of the pathname or by a slash.
\<close>

definition mount_matches :: "string \<Rightarrow> string \<Rightarrow> bool" where
  "mount_matches mount pathname =
     (case strip_prefix_ci mount pathname of
        None \<Rightarrow> False
      | Some rest \<Rightarrow> rest = [] \<or> take 1 rest = ''/'')"

definition mount_path :: "string \<Rightarrow> string" where
  "mount_path container = ''/'' @ container"

section \<open>The proxy options (lines 57--64)\<close>

text \<open>
  The \<^verbatim>\<open>pathRewrite\<close> closure of lines 60--63, with the console line it prints: it
  returns the path with \<^verbatim>\<open>"?"\<close> and the token appended.
\<close>

definition pathRewrite :: "string \<Rightarrow> string \<Rightarrow> string \<times> string list" where
  "pathRewrite sasQueryParams path =
     (path @ ''?'' @ sasQueryParams,
      [''rewriting to '' @ path @ ''?'' @ sasQueryParams])"

record proxy_options =
  target :: string
  changeOrigin :: bool
  path_rewrite :: "string \<Rightarrow> string \<times> string list"

definition blob_host :: "string \<Rightarrow> string" where
  "blob_host account = account @ ''.blob.core.windows.net''"

definition source_maps_proxy :: "string \<Rightarrow> string \<Rightarrow> proxy_options" where
  "source_maps_proxy account sasQueryParams =
     \<lparr>target = ''https://'' @ blob_host account,
      changeOrigin = True,
      path_rewrite = pathRewrite sasQueryParams\<rparr>"

text \<open>
  \<^verbatim>\<open>createProxyMiddleware(options)\<close> (line 57): http-proxy-middleware v2 reads a call
  with options only as the context \<^verbatim>\<open>/\<close>, and its constructor prints through its
  logger (\<^verbatim>\<open>console.info\<close>, default level \<^verbatim>\<open>info\<close>)
  \<^verbatim>\<open>[HPM] Proxy created: ${context}  -> ${target}\<close>. A function \<^verbatim>\<open>pathRewrite\<close>
  prints nothing when it is installed.
\<close>

definition hpm_created_line :: "proxy_options \<Rightarrow> string" where
  "hpm_created_line opts = ''[HPM] Proxy created: /  -> '' @ target opts"

section \<open>The middleware and the application\<close>

text \<open>
  http-proxy-middleware's handler for a request that reached it: the path handed to
  \<^verbatim>\<open>pathRewrite\<close> is the original URL, the rewritten path goes upstream, and the
  \<^verbatim>\<open>Host\<close> header is the target's when \<^verbatim>\<open>changeOrigin\<close> is set. The second component
  is the console, extended by what the closure printed.
\<close>

definition hpm_forward :: "proxy_options \<Rightarrow> request \<Rightarrow> string list \<Rightarrow> upstream \<times> string list" where
  "hpm_forward opts req out =
     (let (path, printed) = path_rewrite opts (req_url req)
      in (\<lparr>up_origin = target opts, up_method = req_method req, up_path = path,
           up_host = (if changeOrigin opts then origin_host (target opts) else req_host req)\<rparr>,
          out @ printed))"

text \<open>The express application of lines 53--65: one mounted layer, else 404.\<close>

definition app_handle ::
  "string \<Rightarrow> proxy_options \<Rightarrow> request \<Rightarrow> string list \<Rightarrow> response \<times> string list" where
  "app_handle mount opts req out =
     (if mount_matches mount (url_pathname (req_url req))
      then (let (up, out') = hpm_forward opts req out in (Proxied up, out'))
      else (NotFound, out))"

definition serve_request :: "config \<Rightarrow> string \<Rightarrow> request \<Rightarrow> string list \<Rightarrow> response \<times> string list" where
  "serve_request cfg sasQueryParams req out =
     app_handle (mount_path (StorageContainer cfg))
       (source_maps_proxy (StorageAccount cfg) sasQueryParams) req out"

section \<open>An example request\<close>

definition example_config :: config where
  "example_config =
     \<lparr>StorageAccount = ''contoso'', StorageContainer = ''sourcemaps'', SslKey = ''key.pem'',
      SslCert = ''cert.pem'', SslPassphrase = ''secret'', SslHost = ''localhost''\<rparr>"

definition example_request :: request where
  "example_request =
     \<lparr>req_method = ''GET'', req_url = ''/sourcemaps/app.js.map'',
      req_host = ''local.teams.office.com''\<rparr>"

section \<open>Lemmas\<close>

lemma origin_host_https [simp]:
  "CHR ''/'' \<notin> set h \<Longrightarrow> origin_host (''https://'' @ h) = h"
  by (simp add: origin_host_def)

lemma blob_host_no_slash [simp]:
  "CHR ''/'' \<notin> set a \<Longrightarrow> CHR ''/'' \<notin> set (blob_host a)"
  by (simp add: blob_host_def)

text \<open>The declarative reading of the mount test: the pathname is the mount path up to
  ASCII case, followed by nothing or by a slash.\<close>

lemma strip_prefix_ci_Some:
  "strip_prefix_ci p s = Some rest \<longleftrightarrow>
     (\<exists>s1. s = s1 @ rest \<and> map ascii_lower s1 = map ascii_lower p)"
proof (induction p s rule: strip_prefix_ci.induct)
  case (1 s)
  then show ?case by auto
next
  case (2 p ps)
  then show ?case by auto
next
  case (3 p ps c cs)
  show ?case
  proof
    assume "strip_prefix_ci (p # ps) (c # cs) = Some rest"
    with "3.IH" obtain s1 where "cs = s1 @ rest" "map ascii_lower s1 = map ascii_lower ps"
        "ascii_lower p = ascii_lower c"
      by (auto split: if_splits)
    then show "\<exists>s1. c # cs = s1 @ rest \<and> map ascii_lower s1 = map ascii_lower (p # ps)"
      by (intro exI [of _ "c # s1"]) simp
  next
    assume "\<exists>s1. c # cs = s1 @ rest \<and> map ascii_lower s1 = map ascii_lower (p # ps)"
    then obtain s1 where s1: "c # cs = s1 @ rest" "map ascii_lower s1 = map ascii_lower (p # ps)"
      by blast
    then obtain s1' where "s1 = c # s1'"
      by (cases s1) auto
    with s1 "3.IH" show "strip_prefix_ci (p # ps) (c # cs) = Some rest"
      by auto
  qed
qed

lemma take1_slash: "take (Suc 0) rest = ''/'' \<longleftrightarrow> rest \<noteq> [] \<and> hd rest = CHR ''/''"
  by (cases rest) auto

lemma pathRewrite_result [simp]:
  "fst (pathRewrite sas path) = path @ ''?'' @ sas"
  by (simp add: pathRewrite_def)

lemma serve_request_eq:
  "serve_request cfg sas req out =
     (if mount_matches (mount_path (StorageContainer cfg)) (url_pathname (req_url req))
      then (Proxied \<lparr>up_origin = ''https://'' @ blob_host (StorageAccount cfg),
                     up_method = req_method req,
                     up_path = req_url req @ ''?'' @ sas,
                     up_host = origin_host (''https://'' @ blob_host (StorageAccount cfg))\<rparr>,
            out @ [''rewriting to '' @ req_url req @ ''?'' @ sas])
      else (NotFound, out))"
  by (simp add: serve_request_def app_handle_def hpm_forward_def source_maps_proxy_def
      pathRewrite_def)

lemma mount_matches_strip:
  "mount_matches m p \<longleftrightarrow>
     (\<exists>rest. strip_prefix_ci m p = Some rest \<and> (rest = [] \<or> hd rest = CHR ''/''))"
  by (auto simp: mount_matches_def take1_slash split: option.splits)

lemma pathRewrite_query_glued:
  "path = w @ CHR ''?'' # r \<Longrightarrow> CHR ''?'' \<notin> set w \<Longrightarrow>
   after_sep CHR ''?'' (fst (pathRewrite sas path)) = Some (r @ CHR ''?'' # sas)"
  by (simp add: pathRewrite_def)

lemma append_Cons_not_self: "r @ c # s \<noteq> s"
proof
  assume "r @ c # s = s"
  then have "length (r @ c # s) = length s" by simp
  then show False by simp
qed

lemma origin_host_blob [simp]:
  "CHR ''/'' \<notin> set a \<Longrightarrow> origin_host (''https://'' @ blob_host a) = blob_host a"
  by (intro origin_host_https blob_host_no_slash)

section \<open>Properties of the rewriting proxy\<close>

text \<open>
  C1. A request whose pathname is under the mount is forwarded to
  \<^verbatim>\<open>https://<account>.blob.core.windows.net\<close> with its method kept, its URL followed
  byte for byte by \<^verbatim>\<open>?\<close> and the token, the \<^verbatim>\<open>Host\<close> header set to the storage host, and
  one console line naming the rewritten path.
\<close>

theorem serve_request_rewrites:
  assumes "mount_matches (mount_path (StorageContainer cfg)) (url_pathname (req_url req))"
    and "CHR ''/'' \<notin> set (StorageAccount cfg)"
  shows "serve_request cfg sas req out =
           (Proxied \<lparr>up_origin = ''https://'' @ StorageAccount cfg @ ''.blob.core.windows.net'',
                     up_method = req_method req,
                     up_path = req_url req @ ''?'' @ sas,
                     up_host = StorageAccount cfg @ ''.blob.core.windows.net''\<rparr>,
            out @ [''rewriting to '' @ req_url req @ ''?'' @ sas])"
proof -
  have "origin_host (''https://'' @ blob_host (StorageAccount cfg)) = blob_host (StorageAccount cfg)"
    using assms(2) by (rule origin_host_blob)
  with assms(1) show ?thesis
    by (simp only: serve_request_eq if_True) (simp add: blob_host_def)
qed

theorem serve_request_rewrites_witness:
  "mount_matches (mount_path (StorageContainer example_config)) (url_pathname (req_url example_request)) \<and>
   CHR ''/'' \<notin> set (StorageAccount example_config) \<and>
   serve_request example_config ''sv=2020-10-02&sig=x'' example_request [] =
     (Proxied \<lparr>up_origin = ''https://contoso.blob.core.windows.net'', up_method = ''GET'',
               up_path = ''/sourcemaps/app.js.map?sv=2020-10-02&sig=x'',
               up_host = ''contoso.blob.core.windows.net''\<rparr>,
      [''rewriting to /sourcemaps/app.js.map?sv=2020-10-02&sig=x''])"
proof -
  have m: "mount_matches (mount_path (StorageContainer example_config)) (url_pathname (req_url example_request))"
    by code_simp
  have a: "CHR ''/'' \<notin> set (StorageAccount example_config)"
    by (simp add: example_config_def)
  show ?thesis
    using serve_request_rewrites [OF m a, of "''sv=2020-10-02&sig=x''" "[]"] m a
    by (simp add: example_config_def example_request_def)
qed

text \<open>
  C2. A request whose pathname is not under the mount is not forwarded: express
  answers with its default 404 and nothing is printed.
\<close>

theorem serve_request_unmounted:
  "\<not> mount_matches (mount_path (StorageContainer cfg)) (url_pathname (req_url req)) \<Longrightarrow>
   serve_request cfg sas req out = (NotFound, out)"
  by (simp add: serve_request_eq)

theorem serve_request_unmounted_witness:
  "\<not> mount_matches (mount_path (StorageContainer example_config)) (url_pathname ''/sourcemapsx/a.map'') \<and>
   serve_request example_config ''sig=x'' (example_request\<lparr>req_url := ''/sourcemapsx/a.map''\<rparr>) [''l''] =
     (NotFound, [''l''])"
proof -
  have n: "\<not> mount_matches (mount_path (StorageContainer example_config)) (url_pathname ''/sourcemapsx/a.map'')"
    by code_simp
  show ?thesis
    using serve_request_unmounted [of example_config "example_request\<lparr>req_url := ''/sourcemapsx/a.map''\<rparr>"
        "''sig=x''" "[''l'']"] n
    by simp
qed

text \<open>
  C15. The query the rewritten path carries: the token exactly when the client sent
  no query; otherwise the client's query stays in front, then \<^verbatim>\<open>?\<close> and the
  token, so that the token's first parameter is glued to the client's last value.
  In particular the query is the token alone exactly when the URL has no \<^verbatim>\<open>?\<close>.
\<close>

theorem token_query_intact_iff:
  "after_sep CHR ''?'' (fst (pathRewrite sas path)) =
     Some (case after_sep CHR ''?'' path of None \<Rightarrow> sas | Some q \<Rightarrow> q @ CHR ''?'' # sas) \<and>
   (after_sep CHR ''?'' (fst (pathRewrite sas path)) = Some sas \<longleftrightarrow> CHR ''?'' \<notin> set path)"
proof (cases "CHR ''?'' \<in> set path")
  case True
  from sep_decompose [OF True] obtain w r where p: "path = w @ CHR ''?'' # r" and w: "CHR ''?'' \<notin> set w"
    by (elim exE conjE)
  then have g: "after_sep CHR ''?'' (fst (pathRewrite sas path)) = Some (r @ CHR ''?'' # sas)"
    by (rule pathRewrite_query_glued)
  from p w have "after_sep CHR ''?'' path = Some r" by simp
  with g True show ?thesis
    using append_Cons_not_self [of r "CHR ''?''" sas]
    by (simp only: simp_thms option.inject option.case not_True_eq_False)
next
  case False
  then show ?thesis by (simp add: pathRewrite_def)
qed

text \<open>
  C16. The mount test of express, declaratively: the pathname is the mount path up
  to ASCII case, followed by nothing or by a slash. So \<^verbatim>\<open>/SourceMaps/a.map\<close> is
  forwarded for container \<^verbatim>\<open>sourcemaps\<close> and \<^verbatim>\<open>/sourcemapsx/a.map\<close> is not.
\<close>

theorem mount_matches_iff:
  "mount_matches m p \<longleftrightarrow>
     (\<exists>pre rest. p = pre @ rest \<and> map ascii_lower pre = map ascii_lower m \<and>
                 (rest = [] \<or> hd rest = CHR ''/''))"
  unfolding mount_matches_strip strip_prefix_ci_Some by blast

end
