(* ===== verification/Query_String.thy ===== *)
theory Query_String
  imports Prelude
begin

text \<open>
  Query strings as the storage SDK writes them and as the storage service reads
  them. \<^verbatim>\<open>encodeURIComponent\<close> keeps the unreserved characters and writes every
  other byte as \<^verbatim>\<open>%XX\<close> (upper-case hex; a string is its UTF-8 bytes here, so a
  non-ASCII character is written byte by byte, as JavaScript does).
  \<^verbatim>\<open>SASQueryParameters.tryAppendQueryParameter\<close> appends \<^verbatim>\<open>key=value\<close> for a
  defined, non-empty value, and the parameters are joined with \<^verbatim>\<open>&\<close>. The reader
  splits at \<^verbatim>\<open>&\<close>, skips empty pieces, splits each piece at its first \<^verbatim>\<open>=\<close> and
  percent-decodes both halves. The theorems: decoding inverts encoding, and reading
  a written query string gives back exactly the parameters that were written.
\<close>

section \<open>\<^verbatim>\<open>encodeURIComponent\<close>\<close>

definition uri_unreserved :: "char \<Rightarrow> bool" where
  "uri_unreserved c =
     (let n = (of_char c :: nat) in
        (48 \<le> n \<and> n \<le> 57) \<or> (65 \<le> n \<and> n \<le> 90) \<or> (97 \<le> n \<and> n \<le> 122) \<or>
        n \<in> {45, 95, 46, 33, 126, 42, 39, 40, 41})"

definition hex_digit :: "nat \<Rightarrow> char" where
  "hex_digit n = (if n < 10 then char_of (48 + n) else char_of (55 + n))"

definition encode_char :: "char \<Rightarrow> string" where
  "encode_char c =
     (if uri_unreserved c then [c]
      else [CHR ''%'', hex_digit (of_char c div 16), hex_digit (of_char c mod 16)])"

definition encodeURIComponent :: "string \<Rightarrow> string" where
  "encodeURIComponent s = concat (map encode_char s)"

section \<open>Percent-decoding\<close>

definition hex_value :: "char \<Rightarrow> nat option" where
  "hex_value c =
     (let n = (of_char c :: nat) in
      if 48 \<le> n \<and> n \<le> 57 then Some (n - 48)
      else if 65 \<le> n \<and> n \<le> 70 then Some (n - 55)
      else if 97 \<le> n \<and> n \<le> 102 then Some (n - 87)
      else None)"

fun percent_decode :: "string \<Rightarrow> string option" where
  "percent_decode [] = Some []"
| "percent_decode (c # cs) =
     (if c = CHR ''%'' then
        (case cs of
           h # l # rest \<Rightarrow>
             (case (hex_value h, hex_value l) of
                (Some a, Some b) \<Rightarrow> map_option (Cons (char_of (16 * a + b))) (percent_decode rest)
              | _ \<Rightarrow> None)
         | _ \<Rightarrow> None)
      else map_option (Cons c) (percent_decode cs))"

section \<open>Writing and reading a query string\<close>

definition tryAppendQueryParameter :: "string list \<Rightarrow> string \<Rightarrow> string option \<Rightarrow> string list" where
  "tryAppendQueryParameter queries key value =
     (case value of
        None \<Rightarrow> queries
      | Some v \<Rightarrow>
          if v = [] then queries
          else (let k = encodeURIComponent key; v' = encodeURIComponent v
                in if k \<noteq> [] \<and> v' \<noteq> [] then queries @ [k @ ''='' @ v'] else queries))"

definition query_string :: "(string \<times> string option) list \<Rightarrow> string" where
  "query_string ps =
     join_on CHR ''&'' (fold (\<lambda>(k, v) qs. tryAppendQueryParameter qs k v) ps [])"

definition parse_param :: "string \<Rightarrow> (string \<times> string) option" where
  "parse_param s =
     (case (percent_decode (before_sep CHR ''='' s),
            percent_decode (case after_sep CHR ''='' s of None \<Rightarrow> [] | Some v \<Rightarrow> v)) of
        (Some k, Some v) \<Rightarrow> Some (k, v)
      | _ \<Rightarrow> None)"

fun all_some :: "'a option list \<Rightarrow> 'a list option" where
  "all_some [] = Some []"
| "all_some (x # xs) =
     (case x of None \<Rightarrow> None | Some a \<Rightarrow> map_option (Cons a) (all_some xs))"

definition parse_query :: "string \<Rightarrow> (string \<times> string) list option" where
  "parse_query q = all_some (map parse_param (filter (\<lambda>s. s \<noteq> []) (split_on CHR ''&'' q)))"

text \<open>The parameters a written query string carries: the defined, non-empty ones.\<close>

definition present_params :: "(string \<times> string option) list \<Rightarrow> (string \<times> string) list" where
  "present_params ps =
     concat (map (\<lambda>(k, v). case v of None \<Rightarrow> []
                             | Some v' \<Rightarrow> if k \<noteq> [] \<and> v' \<noteq> [] then [(k, v')] else []) ps)"

section \<open>Lemmas\<close>

lemma hex_value_hex_digit [simp]: "n < 16 \<Longrightarrow> hex_value (hex_digit n) = Some n"
  by (auto simp: hex_value_def hex_digit_def Let_def)

lemma hex_digit_not [simp]:
  "n < 16 \<Longrightarrow> CHR ''&'' \<noteq> hex_digit n"
  "n < 16 \<Longrightarrow> CHR ''='' \<noteq> hex_digit n"
  by (auto simp: hex_digit_def eq_char_of_iff)

lemma of_char_div_16: "(of_char c :: nat) div 16 < 16"
  using nat_of_char_less_256 [of c] by linarith

lemma of_char_digits: "char_of (16 * ((of_char c :: nat) div 16) + of_char c mod 16) = c"
  by simp

lemma percent_decode_encode_char [simp]:
  "percent_decode (encode_char c @ s) = map_option (Cons c) (percent_decode s)"
proof (cases "uri_unreserved c")
  case True
  moreover have "c \<noteq> CHR ''%''"
    using True by (auto simp: uri_unreserved_def)
  ultimately show ?thesis by (simp add: encode_char_def)
next
  case False
  have "(of_char c :: nat) mod 16 < 16" by simp
  with False of_char_div_16 [of c] show ?thesis
    by (simp add: encode_char_def del: char_of_quasi_inj)
qed

theorem percent_decode_encodeURIComponent [simp]:
  "percent_decode (encodeURIComponent s) = Some s"
  by (induction s) (simp_all add: encodeURIComponent_def)

lemma encode_char_not [simp]:
  "CHR ''&'' \<notin> set (encode_char c)" "CHR ''='' \<notin> set (encode_char c)"
  using of_char_div_16 [of c]
  by (auto simp: encode_char_def uri_unreserved_def)

lemma encodeURIComponent_not [simp]:
  "CHR ''&'' \<notin> set (encodeURIComponent s)" "CHR ''='' \<notin> set (encodeURIComponent s)"
  by (auto simp: encodeURIComponent_def)

lemma encodeURIComponent_Nil_iff [simp]: "encodeURIComponent s = [] \<longleftrightarrow> s = []"
  by (cases s) (simp_all add: encodeURIComponent_def encode_char_def)

lemma parse_param_encoded [simp]:
  "parse_param (encodeURIComponent k @ CHR ''='' # encodeURIComponent v) = Some (k, v)"
  by (simp add: parse_param_def)

lemma fold_tryAppend:
  "fold (\<lambda>(k, v) qs. tryAppendQueryParameter qs k v) ps acc =
     acc @ map (\<lambda>(k, v). encodeURIComponent k @ ''='' @ encodeURIComponent v) (present_params ps)"
  by (induction ps arbitrary: acc)
     (auto simp: tryAppendQueryParameter_def present_params_def split: option.splits)

lemma all_some_map_Some [simp]: "all_some (map Some xs) = Some xs"
  by (induction xs) simp_all

theorem parse_query_string:
  "parse_query (query_string ps) = Some (present_params ps)"
proof -
  let ?enc = "\<lambda>(k, v). encodeURIComponent k @ ''='' @ encodeURIComponent v"
  have pieces: "filter (\<lambda>s. s \<noteq> []) (split_on CHR ''&'' (join_on CHR ''&'' (map ?enc qs))) = map ?enc qs"
    for qs :: "(string \<times> string) list"
  proof (cases "qs = []")
    case True
    then show ?thesis by simp
  next
    case False
    then have "split_on CHR ''&'' (join_on CHR ''&'' (map ?enc qs)) = map ?enc qs"
      by (intro split_join_on) auto
    then show ?thesis by (auto simp: filter_id_conv)
  qed
  have parsed: "map parse_param (map ?enc qs) = map Some qs" for qs :: "(string \<times> string) list"
    by (induction qs) auto
  have "query_string ps = join_on CHR ''&'' (map ?enc (present_params ps))"
    by (simp add: query_string_def fold_tryAppend)
  then have "parse_query (query_string ps) = all_some (map parse_param (map ?enc (present_params ps)))"
    by (simp only: parse_query_def pieces)
  then show ?thesis
    by (simp only: parsed all_some_map_Some)
qed

lemma hex_digit_unreserved: "n < 16 \<Longrightarrow> uri_unreserved (hex_digit n)"
  by (simp add: hex_digit_def uri_unreserved_def)

lemma encode_char_chars: "\<forall>x\<in>set (encode_char c). uri_unreserved x \<or> x = CHR ''%''"
  using of_char_div_16 [of c] by (simp add: encode_char_def hex_digit_unreserved)

lemma encodeURIComponent_chars:
  "\<forall>x\<in>set (encodeURIComponent s). uri_unreserved x \<or> x = CHR ''%''"
  using encode_char_chars by (auto simp: encodeURIComponent_def)

lemma query_string_chars:
  "\<forall>x\<in>set (query_string ps). uri_unreserved x \<or> x \<in> set ''%=&''"
proof
  fix x assume x: "x \<in> set (query_string ps)"
  let ?enc = "\<lambda>(k, v). encodeURIComponent k @ ''='' @ encodeURIComponent v"
  have "x \<in> insert CHR ''&'' (\<Union>w\<in>set (map ?enc (present_params ps)). set w)"
    using x set_join_on by (fastforce simp: query_string_def fold_tryAppend)
  then show "uri_unreserved x \<or> x \<in> set ''%=&''"
    using encodeURIComponent_chars by fastforce
qed

section \<open>Properties of the query-string writer\<close>

text \<open>
  C27. Every character of a query string the SDK writes is unreserved in a URI
  component or one of \<^verbatim>\<open>%\<close>, \<^verbatim>\<open>=\<close>, \<^verbatim>\<open>&\<close>: the token holds no \<^verbatim>\<open>?\<close>,
  \<^verbatim>\<open>#\<close>, \<^verbatim>\<open>/\<close> or space, so line 62 can append it to a URL verbatim.
\<close>

theorem query_string_url_safe:
  "\<forall>x\<in>set (query_string ps). uri_unreserved x \<or> x \<in> set ''%=&''"
  by (rule query_string_chars)

theorem query_string_url_safe_witness:
  "query_string [(''sv'', Some ''2020-10-02''), (''sr'', Some ''c'')] = ''sv=2020-10-02&sr=c'' \<and>
   (uri_unreserved CHR ''&'' \<or> CHR ''&'' \<in> set ''%=&'')"
proof -
  have q: "query_string [(''sv'', Some ''2020-10-02''), (''sr'', Some ''c'')] = ''sv=2020-10-02&sr=c''"
    by (simp add: query_string_def tryAppendQueryParameter_def encodeURIComponent_def
        encode_char_def uri_unreserved_def)
  have "CHR ''&'' \<in> set (query_string [(''sv'', Some ''2020-10-02''), (''sr'', Some ''c'')])"
    by (simp add: q)
  with q query_string_url_safe [of "[(''sv'', Some ''2020-10-02''), (''sr'', Some ''c'')]"]
  show ?thesis by blast
qed

end
