(* ===== verification/Js_Date.thy ===== *)
theory Js_Date
  imports Prelude
begin

text \<open>
  JavaScript dates as the SDK writes them into a SAS: \<^verbatim>\<open>Date.prototype.toISOString\<close>
  cut to whole seconds by the SDK's \<^verbatim>\<open>truncatedISO8061Date(date, false)\<close>. A date is
  a millisecond count; the calendar day is the floor of it divided by a day
  (ECMAScript's \<^verbatim>\<open>Day(t)\<close>), converted to year, month and day by the proleptic
  Gregorian calendar (the days-to-civil algorithm over 400-year eras). Years
  0--9999 have four digits, others a sign and six.
\<close>

definition civil_from_days :: "int \<Rightarrow> int \<times> int \<times> int" where
  "civil_from_days z0 =
     (let z = z0 + 719468;
          era = z div 146097;
          doe = z - era * 146097;
          yoe = (doe - doe div 1460 + doe div 36524 - doe div 146096) div 365;
          y = yoe + era * 400;
          doy = doe - (365 * yoe + yoe div 4 - yoe div 100);
          mp = (5 * doy + 2) div 153;
          d = doy - (153 * mp + 2) div 5 + 1;
          m = (if mp < 10 then mp + 3 else mp - 9)
      in (if m \<le> 2 then y + 1 else y, m, d))"

fun nat_digits :: "nat \<Rightarrow> string" where
  "nat_digits n =
     (if n < 10 then [char_of (48 + n)] else nat_digits (n div 10) @ [char_of (48 + n mod 10)])"

definition pad_digits :: "nat \<Rightarrow> nat \<Rightarrow> string" where
  "pad_digits w n = (let s = nat_digits n in replicate (w - length s) (CHR ''0'') @ s)"

definition iso_year :: "int \<Rightarrow> string" where
  "iso_year y =
     (if 0 \<le> y \<and> y \<le> 9999 then pad_digits 4 (nat y)
      else (if y < 0 then ''-'' else ''+'') @ pad_digits 6 (nat \<bar>y\<bar>))"

text \<open>\<^verbatim>\<open>truncatedISO8061Date(date, false)\<close>: \<^verbatim>\<open>YYYY-MM-DDTHH:mm:ssZ\<close>.\<close>

definition truncatedISO8061Date :: "ms \<Rightarrow> string" where
  "truncatedISO8061Date t =
     (let secs = t div 1000;
          (y, m, d) = civil_from_days (secs div 86400);
          sod = secs mod 86400
      in iso_year y @ ''-'' @ pad_digits 2 (nat m) @ ''-'' @ pad_digits 2 (nat d) @ ''T'' @
         pad_digits 2 (nat (sod div 3600)) @ '':'' @ pad_digits 2 (nat (sod mod 3600 div 60)) @
         '':'' @ pad_digits 2 (nat (sod mod 60)) @ ''Z'')"

definition decimal_char :: "char \<Rightarrow> bool" where
  "decimal_char c \<longleftrightarrow> 48 \<le> (of_char c :: nat) \<and> (of_char c :: nat) \<le> 57"

declare nat_digits.simps [simp del]

lemma nat_digits_not_Nil [simp]: "nat_digits n \<noteq> []"
  by (subst nat_digits.simps) simp

lemma truncatedISO8061Date_not_Nil [simp]: "truncatedISO8061Date t \<noteq> []"
  by (simp add: truncatedISO8061Date_def Let_def split: prod.splits)

text \<open>The string depends on the whole seconds only.\<close>

lemma truncatedISO8061Date_seconds:
  "t div 1000 = u div 1000 \<Longrightarrow> truncatedISO8061Date t = truncatedISO8061Date u"
  by (simp add: truncatedISO8061Date_def)

lemma decimal_char_of [simp]: "(k::nat) < 10 \<Longrightarrow> decimal_char (char_of (48 + k))"
  by (simp add: decimal_char_def)

lemma nat_digits_chars: "\<forall>c\<in>set (nat_digits n). decimal_char c"
proof (induction n rule: nat_digits.induct)
  case (1 n)
  then show ?case by (subst nat_digits.simps) simp
qed

lemma pad_digits_chars: "\<forall>c\<in>set (pad_digits w n). decimal_char c"
  using nat_digits_chars [of n] by (auto simp: pad_digits_def Let_def decimal_char_def)

lemma truncatedISO8061Date_chars:
  "\<forall>c\<in>set (truncatedISO8061Date t). decimal_char c \<or> c \<in> set ''-+T:Z''"
  using pad_digits_chars
  by (auto simp: truncatedISO8061Date_def iso_year_def Let_def split: prod.splits)

lemma truncatedISO8061Date_no_newline [simp]: "CHR 0x0A \<notin> set (truncatedISO8061Date t)"
  using truncatedISO8061Date_chars [of t] by (auto simp: decimal_char_def)

end
