(* ===== verification/Sas_Sdk.thy ===== *)
theory Sas_Sdk
  imports Query_String Js_Date "HOL-Library.Word"
begin

text \<open>
  The part of \<^verbatim>\<open>@azure/storage-blob\<close> that \<^verbatim>\<open>getReadOnlySasQueryParameter\<close>
  (\<^verbatim>\<open>src/src/index.ts\<close> lines 29--49) calls, modelled as the SDK's documented
  behaviour: the permission class \<^verbatim>\<open>ContainerSASPermissions\<close> with \<^verbatim>\<open>parse\<close> and
  \<^verbatim>\<open>toString\<close>, the \<^verbatim>\<open>SASProtocol\<close> and \<^verbatim>\<open>SasIPRange\<close> values, the user delegation
  key, the signature values and query parameters, and the serialisation
  \<^verbatim>\<open>SASQueryParameters.toString()\<close> with \<^verbatim>\<open>encodeURIComponent\<close> and
  \<^verbatim>\<open>Date.toISOString()\<close> truncated to seconds. The HMAC signature is a parameter:
  nothing here depends on how it is computed. A decoder for query strings (the
  reading of the token by the storage service) gives the round-trip theorems.
\<close>

section \<open>Container SAS permissions\<close>

record container_sas_permissions =
  read :: bool
  add :: bool
  create :: bool
  write_perm :: bool
  delete :: bool
  deleteVersion :: bool
  list :: bool
  tag :: bool
  move :: bool
  execute :: bool
  setImmutabilityPolicy :: bool
  permanentDelete :: bool
  filterByTags :: bool

text \<open>\<^verbatim>\<open>new ContainerSASPermissions()\<close>: every flag false.\<close>

definition no_permissions :: container_sas_permissions where
  "no_permissions =
     \<lparr>read = False, add = False, create = False, write_perm = False, delete = False,
      deleteVersion = False, list = False, tag = False, move = False, execute = False,
      setImmutabilityPolicy = False, permanentDelete = False, filterByTags = False\<rparr>"

text \<open>One iteration of the \<^verbatim>\<open>switch\<close> in \<^verbatim>\<open>ContainerSASPermissions.parse\<close>.\<close>

definition set_permission ::
  "char \<Rightarrow> container_sas_permissions \<Rightarrow> error + container_sas_permissions" where
  "set_permission c p =
     (if c = CHR ''r'' then Inr (p\<lparr>read := True\<rparr>)
      else if c = CHR ''a'' then Inr (p\<lparr>add := True\<rparr>)
      else if c = CHR ''c'' then Inr (p\<lparr>create := True\<rparr>)
      else if c = CHR ''w'' then Inr (p\<lparr>write_perm := True\<rparr>)
      else if c = CHR ''d'' then Inr (p\<lparr>delete := True\<rparr>)
      else if c = CHR ''x'' then Inr (p\<lparr>deleteVersion := True\<rparr>)
      else if c = CHR ''l'' then Inr (p\<lparr>list := True\<rparr>)
      else if c = CHR ''t'' then Inr (p\<lparr>tag := True\<rparr>)
      else if c = CHR ''m'' then Inr (p\<lparr>move := True\<rparr>)
      else if c = CHR ''e'' then Inr (p\<lparr>execute := True\<rparr>)
      else if c = CHR ''i'' then Inr (p\<lparr>setImmutabilityPolicy := True\<rparr>)
      else if c = CHR ''y'' then Inr (p\<lparr>permanentDelete := True\<rparr>)
      else if c = CHR ''f'' then Inr (p\<lparr>filterByTags := True\<rparr>)
      else Inl (InvalidPermission c))"

fun parse_permissions_from ::
  "container_sas_permissions \<Rightarrow> string \<Rightarrow> error + container_sas_permissions" where
  "parse_permissions_from p [] = Inr p"
| "parse_permissions_from p (c # cs) =
     (case set_permission c p of Inl e \<Rightarrow> Inl e | Inr p' \<Rightarrow> parse_permissions_from p' cs)"

definition ContainerSASPermissions_parse :: "string \<Rightarrow> error + container_sas_permissions" where
  "ContainerSASPermissions_parse s = parse_permissions_from no_permissions s"

text \<open>\<^verbatim>\<open>toString()\<close>: the letters of the set flags in the class's fixed order.\<close>

definition ContainerSASPermissions_toString :: "container_sas_permissions \<Rightarrow> string" where
  "ContainerSASPermissions_toString p =
     (if read p then ''r'' else []) @ (if add p then ''a'' else []) @
     (if create p then ''c'' else []) @ (if write_perm p then ''w'' else []) @
     (if delete p then ''d'' else []) @ (if deleteVersion p then ''x'' else []) @
     (if list p then ''l'' else []) @ (if tag p then ''t'' else []) @
     (if move p then ''m'' else []) @ (if execute p then ''e'' else []) @
     (if setImmutabilityPolicy p then ''i'' else []) @
     (if permanentDelete p then ''y'' else []) @ (if filterByTags p then ''f'' else [])"

text \<open>The letters \<open>parse\<close> accepts, in the order \<open>toString\<close> writes them, and the
  permission set of the letters satisfying a predicate.\<close>

definition permission_letters :: string where
  "permission_letters = ''racwdxltmeiyf''"

definition perm_of_set :: "(char \<Rightarrow> bool) \<Rightarrow> container_sas_permissions" where
  "perm_of_set P =
     \<lparr>read = P CHR ''r'', add = P CHR ''a'', create = P CHR ''c'', write_perm = P CHR ''w'',
      delete = P CHR ''d'', deleteVersion = P CHR ''x'', list = P CHR ''l'', tag = P CHR ''t'',
      move = P CHR ''m'', execute = P CHR ''e'', setImmutabilityPolicy = P CHR ''i'',
      permanentDelete = P CHR ''y'', filterByTags = P CHR ''f''\<rparr>"

section \<open>Protocol, IP range, delegation key\<close>

datatype sas_protocol = Https | HttpsAndHttp

definition sas_protocol_string :: "sas_protocol \<Rightarrow> string" where
  "sas_protocol_string pr = (case pr of Https \<Rightarrow> ''https'' | HttpsAndHttp \<Rightarrow> ''https,http'')"

record sas_ip_range =
  ip_start :: string
  ip_end :: "string option"

text \<open>\<^verbatim>\<open>ipRangeToString\<close>: \<^verbatim>\<open>start-end\<close>, or \<^verbatim>\<open>start\<close> alone without an end.\<close>

definition ipRangeToString :: "sas_ip_range \<Rightarrow> string" where
  "ipRangeToString r =
     (case ip_end r of None \<Rightarrow> ip_start r | Some e \<Rightarrow>
        if e = [] then ip_start r else ip_start r @ ''-'' @ e)"

record user_delegation_key =
  signedObjectId :: string
  signedTenantId :: string
  signedStartsOn :: ms
  signedExpiresOn :: ms
  signedService :: string
  signedVersion :: string
  key_value :: string

section \<open>Signature values and query parameters\<close>

text \<open>The fields of \<^verbatim>\<open>BlobSASSignatureValues\<close> the program sets; the others
  (blob name, identifier, snapshot, response headers, encryption scope) stay
  \<^verbatim>\<open>undefined\<close> in every call it makes.\<close>

record blob_sas_values =
  containerName :: string
  permissions :: "container_sas_permissions option"
  startsOn :: "ms option"
  expiresOn :: "ms option"
  ipRange :: "sas_ip_range option"
  protocol :: "sas_protocol option"

record sas_query_parameters =
  qp_version :: string
  qp_protocol :: "sas_protocol option"
  qp_startsOn :: "ms option"
  qp_expiresOn :: "ms option"
  qp_ipRange :: "sas_ip_range option"
  qp_signedObjectId :: string
  qp_signedTenantId :: string
  qp_signedStartsOn :: ms
  qp_signedExpiresOn :: ms
  qp_signedService :: string
  qp_signedVersion :: string
  qp_resource :: string
  qp_permissions :: "string option"
  qp_signature :: string

text \<open>The SDK's \<^verbatim>\<open>SERVICE_VERSION\<close>, the \<^verbatim>\<open>sv\<close> of every SAS it signs; its value
  depends on the SDK release and no lemma depends on it.\<close>

definition SERVICE_VERSION :: string where
  "SERVICE_VERSION = ''2020-10-02''"

text \<open>JavaScript's \<^verbatim>\<open>x ? f(x) : ""\<close> on an optional value.\<close>

definition opt_string :: "('a \<Rightarrow> string) \<Rightarrow> 'a option \<Rightarrow> string" where
  "opt_string f x = (case x of None \<Rightarrow> [] | Some y \<Rightarrow> f y)"

text \<open>\<^verbatim>\<open>getCanonicalName(accountName, containerName)\<close> without a blob name.\<close>

definition getCanonicalName :: "string \<Rightarrow> string \<Rightarrow> string" where
  "getCanonicalName account container = ''/blob/'' @ account @ ''/'' @ container"

text \<open>
  The string-to-sign of a user delegation SAS for a container: the array of the
  SDK's \<^verbatim>\<open>generateBlobSASQueryParametersUDK20200210\<close> joined by \<^verbatim>\<open>"\n"\<close>, in its
  order: permissions, start, expiry, canonical name, the key's object id, tenant id,
  start, expiry, service and version, the unset agent object ids and correlation id,
  IP range, protocol, version, resource \<^verbatim>\<open>c\<close>, the unset snapshot time and the five
  unset response headers. \<^verbatim>\<open>undefined\<close> joins as the empty string.
\<close>

definition blob_sas_string_to_sign ::
  "string \<Rightarrow> blob_sas_values \<Rightarrow> user_delegation_key \<Rightarrow> string \<Rightarrow> string" where
  "blob_sas_string_to_sign verifiedPermissions v k account =
     join_on (CHR 0x0A)
       [verifiedPermissions,
        opt_string truncatedISO8061Date (startsOn v),
        opt_string truncatedISO8061Date (expiresOn v),
        getCanonicalName account (containerName v),
        signedObjectId k, signedTenantId k,
        truncatedISO8061Date (signedStartsOn k), truncatedISO8061Date (signedExpiresOn k),
        signedService k, signedVersion k,
        [], [], [],
        opt_string ipRangeToString (ipRange v),
        opt_string sas_protocol_string (protocol v),
        SERVICE_VERSION, ''c'',
        [], [], [], [], [], []]"

text \<open>
  \<^verbatim>\<open>generateBlobSASQueryParameters(values, userDelegationKey, accountName)\<close> for a
  container (no blob name): a \<^verbatim>\<open>RangeError\<close> without permissions or expiry, the
  permissions normalised by \<^verbatim>\<open>parse(toString())\<close>, resource \<^verbatim>\<open>c\<close>, and the signature
  \<^verbatim>\<open>computeHMACSHA256(stringToSign)\<close> under the key's value; the HMAC itself is
  the parameter \<open>hmac\<close> (key, message).
\<close>

definition generateBlobSASQueryParameters ::
  "(string \<Rightarrow> string \<Rightarrow> string) \<Rightarrow>
   blob_sas_values \<Rightarrow> user_delegation_key \<Rightarrow> string \<Rightarrow> error + sas_query_parameters" where
  "generateBlobSASQueryParameters hmac v k account =
     (case (permissions v, expiresOn v) of
        (Some p, Some _) \<Rightarrow>
          (case ContainerSASPermissions_parse (ContainerSASPermissions_toString p) of
             Inl e \<Rightarrow> Inl e
           | Inr p' \<Rightarrow>
               Inr \<lparr>qp_version = SERVICE_VERSION, qp_protocol = protocol v,
                    qp_startsOn = startsOn v, qp_expiresOn = expiresOn v,
                    qp_ipRange = ipRange v,
                    qp_signedObjectId = signedObjectId k, qp_signedTenantId = signedTenantId k,
                    qp_signedStartsOn = signedStartsOn k, qp_signedExpiresOn = signedExpiresOn k,
                    qp_signedService = signedService k, qp_signedVersion = signedVersion k,
                    qp_resource = ''c'',
                    qp_permissions = Some (ContainerSASPermissions_toString p'),
                    qp_signature =
                      hmac (key_value k)
                        (blob_sas_string_to_sign (ContainerSASPermissions_toString p') v k account)\<rparr>)
      | _ \<Rightarrow> Inl SasRangeError)"

section \<open>\<^verbatim>\<open>SASQueryParameters.toString()\<close>\<close>

text \<open>
  The parameters in the SDK's fixed order, each with its value or \<^verbatim>\<open>undefined\<close>;
  dates are written by \<open>truncatedISO8061Date\<close>. The SDK's list also names
  \<^verbatim>\<open>ss\<close>, \<^verbatim>\<open>srt\<close>, \<^verbatim>\<open>si\<close>, \<^verbatim>\<open>ses\<close>, the response-header overrides and
  \<^verbatim>\<open>saoid\<close>/\<^verbatim>\<open>scid\<close>: none of them is set by a container SAS without
  identifier, so \<open>tryAppendQueryParameter\<close> skips them and they are left out.
\<close>

definition sas_query_pairs :: "sas_query_parameters \<Rightarrow> (string \<times> string option) list" where
  "sas_query_pairs q =
     [(''sv'', Some (qp_version q)),
      (''spr'', map_option sas_protocol_string (qp_protocol q)),
      (''st'', map_option truncatedISO8061Date (qp_startsOn q)),
      (''se'', map_option truncatedISO8061Date (qp_expiresOn q)),
      (''sip'', map_option ipRangeToString (qp_ipRange q)),
      (''skoid'', Some (qp_signedObjectId q)),
      (''sktid'', Some (qp_signedTenantId q)),
      (''skt'', Some (truncatedISO8061Date (qp_signedStartsOn q))),
      (''ske'', Some (truncatedISO8061Date (qp_signedExpiresOn q))),
      (''sks'', Some (qp_signedService q)),
      (''skv'', Some (qp_signedVersion q)),
      (''sr'', Some (qp_resource q)),
      (''sp'', qp_permissions q),
      (''sig'', Some (qp_signature q))]"

definition SASQueryParameters_toString :: "sas_query_parameters \<Rightarrow> string" where
  "SASQueryParameters_toString q = query_string (sas_query_pairs q)"

section \<open>Reading the IP range of a SAS\<close>

text \<open>
  The storage service reads the \<^verbatim>\<open>sip\<close> parameter as one IPv4 address or an
  inclusive range \<^verbatim>\<open>start-end\<close> of dotted quads, each a 32-bit address. This reader
  is the service's side of \<open>ipRangeToString\<close>; it gives the range a SAS admits.
\<close>

definition digit_value :: "char \<Rightarrow> nat option" where
  "digit_value c =
     (let n = of_char c :: nat in if 48 \<le> n \<and> n \<le> 57 then Some (n - 48) else None)"

fun decimal_acc :: "nat \<Rightarrow> string \<Rightarrow> nat option" where
  "decimal_acc n [] = Some n"
| "decimal_acc n (c # cs) =
     (case digit_value c of None \<Rightarrow> None | Some d \<Rightarrow> decimal_acc (10 * n + d) cs)"

definition parse_decimal :: "string \<Rightarrow> nat option" where
  "parse_decimal s = (if s = [] then None else decimal_acc 0 s)"

definition parse_ipv4 :: "string \<Rightarrow> 32 word option" where
  "parse_ipv4 s =
     (case map parse_decimal (split_on CHR ''.'' s) of
        [Some a, Some b, Some c, Some d] \<Rightarrow>
          if a < 256 \<and> b < 256 \<and> c < 256 \<and> d < 256
          then Some (of_nat (((a * 256 + b) * 256 + c) * 256 + d)) else None
      | _ \<Rightarrow> None)"

definition parse_ip_range :: "string \<Rightarrow> (32 word \<times> 32 word) option" where
  "parse_ip_range s =
     (case split_on CHR ''-'' s of
        [a] \<Rightarrow> map_option (\<lambda>x. (x, x)) (parse_ipv4 a)
      | [a, b] \<Rightarrow> (case (parse_ipv4 a, parse_ipv4 b) of
                    (Some x, Some y) \<Rightarrow> Some (x, y) | _ \<Rightarrow> None)
      | _ \<Rightarrow> None)"

definition ip_range_admits :: "32 word \<times> 32 word \<Rightarrow> 32 word \<Rightarrow> bool" where
  "ip_range_admits r a \<longleftrightarrow> fst r \<le> a \<and> a \<le> snd r"

section \<open>Lemmas\<close>

lemma distinct_sas_query_keys: "distinct (map fst (sas_query_pairs q))"
  by (simp add: sas_query_pairs_def)

lemma map_of_present_params:
  "distinct (map fst ps) \<Longrightarrow>
   map_of (present_params ps) k =
     (case map_of ps k of Some (Some v) \<Rightarrow> if k \<noteq> [] \<and> v \<noteq> [] then Some v else None | _ \<Rightarrow> None)"
proof (induction ps)
  case Nil
  then show ?case by (simp add: present_params_def)
next
  case (Cons p ps)
  obtain k' v' where p: "p = (k', v')" by (cases p)
  have "k' \<notin> fst ` set ps" using Cons.prems p by simp
  then have "map_of ps k' = None" by (simp add: map_of_eq_None_iff)
  with Cons p show ?case
    by (auto simp: present_params_def split: option.splits)
qed

text \<open>Reading a serialised SAS gives back each parameter that was written.\<close>

lemma parse_SASQueryParameters_toString:
  "parse_query (SASQueryParameters_toString q) = Some (present_params (sas_query_pairs q))"
  by (simp add: SASQueryParameters_toString_def parse_query_string)

lemma ContainerSASPermissions_parse_r:
  "ContainerSASPermissions_parse ''r'' = Inr (no_permissions\<lparr>read := True\<rparr>)"
  by (simp add: ContainerSASPermissions_parse_def set_permission_def)

lemma ContainerSASPermissions_toString_r:
  "ContainerSASPermissions_toString (no_permissions\<lparr>read := True\<rparr>) = ''r''"
  by (simp add: ContainerSASPermissions_toString_def no_permissions_def)

lemma parse_permissions_from_append:
  "parse_permissions_from p (xs @ ys) =
     (case parse_permissions_from p xs of Inl e \<Rightarrow> Inl e | Inr p' \<Rightarrow> parse_permissions_from p' ys)"
  by (induction xs arbitrary: p) (auto split: sum.splits)

lemma parse_permissions_flag:
  "set_permission c q = Inr q' \<Longrightarrow>
   parse_permissions_from q (if f then [c] else []) = Inr (if f then q' else q)"
  by simp

lemma ip_decimals:
  "parse_decimal ''255'' = Some 255" "parse_decimal ''0'' = Some 0"
  by (simp_all add: parse_decimal_def digit_value_def)

lemma parse_ip_range_all: "parse_ip_range ''0.0.0.0-255.255.255.255'' = Some (0, -1)"
  by (simp add: parse_ip_range_def parse_ipv4_def ip_decimals)

lemma mem_if_Nil [simp]: "x \<in> set (if b then ys else []) \<longleftrightarrow> b \<and> x \<in> set ys"
  by simp

lemma ContainerSASPermissions_toString_no_newline [simp]:
  "CHR 0x0A \<notin> set (ContainerSASPermissions_toString p)"
  unfolding ContainerSASPermissions_toString_def set_append Un_iff mem_if_Nil by simp

lemma sas_protocol_string_no_newline [simp]: "CHR 0x0A \<notin> set (sas_protocol_string pr)"
  by (cases pr) (simp_all add: sas_protocol_string_def)

lemma opt_string_no_newline [simp]:
  "(\<And>y. CHR 0x0A \<notin> set (f y)) \<Longrightarrow> CHR 0x0A \<notin> set (opt_string f x)"
  by (cases x) (simp_all add: opt_string_def)

lemma generateBlobSASQueryParameters_Inr:
  "generateBlobSASQueryParameters hmac v k account = Inr q \<Longrightarrow>
   \<exists>p p' e. permissions v = Some p \<and> expiresOn v = Some e \<and>
     ContainerSASPermissions_parse (ContainerSASPermissions_toString p) = Inr p' \<and>
     q = \<lparr>qp_version = SERVICE_VERSION, qp_protocol = protocol v,
          qp_startsOn = startsOn v, qp_expiresOn = expiresOn v, qp_ipRange = ipRange v,
          qp_signedObjectId = signedObjectId k, qp_signedTenantId = signedTenantId k,
          qp_signedStartsOn = signedStartsOn k, qp_signedExpiresOn = signedExpiresOn k,
          qp_signedService = signedService k, qp_signedVersion = signedVersion k,
          qp_resource = ''c'', qp_permissions = Some (ContainerSASPermissions_toString p'),
          qp_signature = hmac (key_value k)
            (blob_sas_string_to_sign (ContainerSASPermissions_toString p') v k account)\<rparr>"
  by (auto simp: generateBlobSASQueryParameters_def split: option.splits sum.splits)

lemma filter_Cons_app: "filter P (x # xs) = (if P x then [x] else []) @ filter P xs"
  by simp

lemma toString_perm_of_set:
  "ContainerSASPermissions_toString (perm_of_set P) = filter P permission_letters"
  unfolding permission_letters_def filter_Cons_app
  by (simp add: ContainerSASPermissions_toString_def perm_of_set_def)

lemma no_permissions_perm_of_set: "no_permissions = perm_of_set (\<lambda>c. False)"
  by (simp add: no_permissions_def perm_of_set_def)

lemma set_permission_perm_of_set:
  "c \<in> set permission_letters \<Longrightarrow>
   set_permission c (perm_of_set P) = Inr (perm_of_set (\<lambda>x. P x \<or> x = c))"
  unfolding permission_letters_def
  by (auto simp: set_permission_def perm_of_set_def)

lemma set_permission_invalid:
  "c \<notin> set permission_letters \<Longrightarrow> set_permission c p = Inl (InvalidPermission c)"
  by (simp add: permission_letters_def set_permission_def)

lemma parse_permissions_from_valid:
  "list_all (\<lambda>c. c \<in> set permission_letters) s \<Longrightarrow>
   parse_permissions_from (perm_of_set P) s = Inr (perm_of_set (\<lambda>x. P x \<or> x \<in> set s))"
proof (induction s arbitrary: P)
  case Nil
  then show ?case by simp
next
  case (Cons c cs)
  then have "parse_permissions_from (perm_of_set P) (c # cs) =
               parse_permissions_from (perm_of_set (\<lambda>x. P x \<or> x = c)) cs"
    by (simp add: set_permission_perm_of_set)
  also have "\<dots> = Inr (perm_of_set (\<lambda>x. (P x \<or> x = c) \<or> x \<in> set cs))"
    using Cons by simp
  finally show ?case by (simp add: disj_assoc eq_commute [of _ c])
qed

section \<open>Properties of the SDK model\<close>

text \<open>
  C23. \<^verbatim>\<open>ContainerSASPermissions.parse\<close> inverts \<^verbatim>\<open>toString\<close> for every permission
  set: the permissions the provisioner writes with \<^verbatim>\<open>parse("r").toString()\<close> are the
  ones a reader of the string gets back, and the string never fails to parse.
\<close>

theorem permissions_roundtrip:
  "ContainerSASPermissions_parse (ContainerSASPermissions_toString p) = Inr p"
  unfolding ContainerSASPermissions_parse_def ContainerSASPermissions_toString_def
proof (simp only: parse_permissions_from_append parse_permissions_flag set_permission_def
      char.inject simp_thms if_True if_False sum.case, rule arg_cong [where f = Inr],
    rule container_sas_permissions.equality)
qed (simp_all add: no_permissions_def)

text \<open>
  C25. The signature binds every parameter the SAS carries: the signed message is
  \<^verbatim>\<open>computeHMACSHA256\<close> of a string that splits at its newlines into exactly the
  values written as \<^verbatim>\<open>sp\<close>, \<^verbatim>\<open>st\<close>, \<^verbatim>\<open>se\<close>, the canonical name, the key's
  \<^verbatim>\<open>skoid\<close> to \<^verbatim>\<open>skv\<close>, \<^verbatim>\<open>sip\<close>, \<^verbatim>\<open>spr\<close>, \<^verbatim>\<open>sv\<close> and \<^verbatim>\<open>sr\<close> (and empty fields for
  the unset ones), provided the account, container, key fields and IP range hold
  no newline. So altering any of these parameters in the token changes the string
  the service recomputes and voids the signature.
\<close>

theorem signature_binds_parameters:
  assumes "generateBlobSASQueryParameters hmac v k account = Inr q"
    and "CHR 0x0A \<notin> set (getCanonicalName account (containerName v) @ signedObjectId k @
           signedTenantId k @ signedService k @ signedVersion k @ opt_string ipRangeToString (ipRange v))"
  shows "\<exists>m. qp_signature q = hmac (key_value k) m \<and>
           split_on (CHR 0x0A) m =
             [opt_string id (qp_permissions q),
              opt_string truncatedISO8061Date (qp_startsOn q),
              opt_string truncatedISO8061Date (qp_expiresOn q),
              getCanonicalName account (containerName v),
              qp_signedObjectId q, qp_signedTenantId q,
              truncatedISO8061Date (qp_signedStartsOn q), truncatedISO8061Date (qp_signedExpiresOn q),
              qp_signedService q, qp_signedVersion q, [], [], [],
              opt_string ipRangeToString (qp_ipRange q), opt_string sas_protocol_string (qp_protocol q),
              qp_version q, qp_resource q, [], [], [], [], [], []]"
proof -
  obtain p p' e where q: "q = \<lparr>qp_version = SERVICE_VERSION, qp_protocol = protocol v,
          qp_startsOn = startsOn v, qp_expiresOn = expiresOn v, qp_ipRange = ipRange v,
          qp_signedObjectId = signedObjectId k, qp_signedTenantId = signedTenantId k,
          qp_signedStartsOn = signedStartsOn k, qp_signedExpiresOn = signedExpiresOn k,
          qp_signedService = signedService k, qp_signedVersion = signedVersion k,
          qp_resource = ''c'', qp_permissions = Some (ContainerSASPermissions_toString p'),
          qp_signature = hmac (key_value k)
            (blob_sas_string_to_sign (ContainerSASPermissions_toString p') v k account)\<rparr>"
    using generateBlobSASQueryParameters_Inr [OF assms(1)] by blast
  let ?m = "blob_sas_string_to_sign (ContainerSASPermissions_toString p') v k account"
  have "split_on (CHR 0x0A) ?m =
             [ContainerSASPermissions_toString p',
              opt_string truncatedISO8061Date (startsOn v),
              opt_string truncatedISO8061Date (expiresOn v),
              getCanonicalName account (containerName v),
              signedObjectId k, signedTenantId k,
              truncatedISO8061Date (signedStartsOn k), truncatedISO8061Date (signedExpiresOn k),
              signedService k, signedVersion k, [], [], [],
              opt_string ipRangeToString (ipRange v), opt_string sas_protocol_string (protocol v),
              SERVICE_VERSION, ''c'', [], [], [], [], [], []]"
    unfolding blob_sas_string_to_sign_def
    by (rule split_join_on) (use assms(2) in \<open>simp_all add: SERVICE_VERSION_def\<close>)
  then show ?thesis by (intro exI [of _ ?m]) (simp add: q opt_string_def)
qed

theorem signature_binds_parameters_witness:
  "\<exists>q. generateBlobSASQueryParameters (\<lambda>key message. ''c2ln'') \<lparr>containerName = ''sourcemaps'', permissions = Some (no_permissions\<lparr>read := True\<rparr>),
           startsOn = Some 0, expiresOn = Some 86400000, ipRange = None, protocol = Some Https\<rparr> \<lparr>signedObjectId = ''oid'', signedTenantId = ''tid'', signedStartsOn = 0,
           signedExpiresOn = 100000, signedService = ''b'', signedVersion = ''2020-10-02'',
           key_value = ''a2V5''\<rparr> ''contoso'' = Inr q \<and>
       qp_permissions q = Some ''r'' \<and>
       (\<exists>m. qp_signature q = ''c2ln'' \<and>
            split_on (CHR 0x0A) m =
              [''r'', opt_string truncatedISO8061Date (qp_startsOn q),
               opt_string truncatedISO8061Date (qp_expiresOn q), ''/blob/contoso/sourcemaps'',
               qp_signedObjectId q, qp_signedTenantId q,
               truncatedISO8061Date (qp_signedStartsOn q), truncatedISO8061Date (qp_signedExpiresOn q),
               qp_signedService q, qp_signedVersion q, [], [], [],
               opt_string ipRangeToString (qp_ipRange q), opt_string sas_protocol_string (qp_protocol q),
               qp_version q, qp_resource q, [], [], [], [], [], []])"
proof -
  have "\<exists>q. generateBlobSASQueryParameters (\<lambda>key message. ''c2ln'') \<lparr>containerName = ''sourcemaps'', permissions = Some (no_permissions\<lparr>read := True\<rparr>),
           startsOn = Some 0, expiresOn = Some 86400000, ipRange = None, protocol = Some Https\<rparr> \<lparr>signedObjectId = ''oid'', signedTenantId = ''tid'', signedStartsOn = 0,
           signedExpiresOn = 100000, signedService = ''b'', signedVersion = ''2020-10-02'',
           key_value = ''a2V5''\<rparr> ''contoso'' = Inr q"
    by (simp add: generateBlobSASQueryParameters_def ContainerSASPermissions_toString_r
        ContainerSASPermissions_parse_r)
  then obtain q where g: "generateBlobSASQueryParameters (\<lambda>key message. ''c2ln'') \<lparr>containerName = ''sourcemaps'', permissions = Some (no_permissions\<lparr>read := True\<rparr>),
           startsOn = Some 0, expiresOn = Some 86400000, ipRange = None, protocol = Some Https\<rparr> \<lparr>signedObjectId = ''oid'', signedTenantId = ''tid'', signedStartsOn = 0,
           signedExpiresOn = 100000, signedService = ''b'', signedVersion = ''2020-10-02'',
           key_value = ''a2V5''\<rparr> ''contoso'' = Inr q"
    by blast
  have p: "qp_permissions q = Some ''r''"
    using g by (auto simp: generateBlobSASQueryParameters_def ContainerSASPermissions_toString_r
        ContainerSASPermissions_parse_r)
  have h: "CHR 0x0A \<notin> set (getCanonicalName ''contoso'' (containerName \<lparr>containerName = ''sourcemaps'', permissions = Some (no_permissions\<lparr>read := True\<rparr>),
           startsOn = Some 0, expiresOn = Some 86400000, ipRange = None, protocol = Some Https\<rparr>) @ signedObjectId \<lparr>signedObjectId = ''oid'', signedTenantId = ''tid'', signedStartsOn = 0,
           signedExpiresOn = 100000, signedService = ''b'', signedVersion = ''2020-10-02'',
           key_value = ''a2V5''\<rparr> @
           signedTenantId \<lparr>signedObjectId = ''oid'', signedTenantId = ''tid'', signedStartsOn = 0,
           signedExpiresOn = 100000, signedService = ''b'', signedVersion = ''2020-10-02'',
           key_value = ''a2V5''\<rparr> @ signedService \<lparr>signedObjectId = ''oid'', signedTenantId = ''tid'', signedStartsOn = 0,
           signedExpiresOn = 100000, signedService = ''b'', signedVersion = ''2020-10-02'',
           key_value = ''a2V5''\<rparr> @ signedVersion \<lparr>signedObjectId = ''oid'', signedTenantId = ''tid'', signedStartsOn = 0,
           signedExpiresOn = 100000, signedService = ''b'', signedVersion = ''2020-10-02'',
           key_value = ''a2V5''\<rparr> @ opt_string ipRangeToString (ipRange \<lparr>containerName = ''sourcemaps'', permissions = Some (no_permissions\<lparr>read := True\<rparr>),
           startsOn = Some 0, expiresOn = Some 86400000, ipRange = None, protocol = Some Https\<rparr>))"
    by (simp add: getCanonicalName_def opt_string_def)
  have "\<exists>m. qp_signature q = ''c2ln'' \<and>
            split_on (CHR 0x0A) m =
              [''r'', opt_string truncatedISO8061Date (qp_startsOn q),
               opt_string truncatedISO8061Date (qp_expiresOn q), ''/blob/contoso/sourcemaps'',
               qp_signedObjectId q, qp_signedTenantId q,
               truncatedISO8061Date (qp_signedStartsOn q), truncatedISO8061Date (qp_signedExpiresOn q),
               qp_signedService q, qp_signedVersion q, [], [], [],
               opt_string ipRangeToString (qp_ipRange q), opt_string sas_protocol_string (qp_protocol q),
               qp_version q, qp_resource q, [], [], [], [], [], []]"
    using signature_binds_parameters [OF g h] p
    by (simp add: getCanonicalName_def opt_string_def)
  with g p show ?thesis by blast
qed

text \<open>
  C26. \<^verbatim>\<open>ContainerSASPermissions.parse(s).toString()\<close>, the normalisation the SDK
  applies before signing, equals the reference definition: the letters of
  \<^verbatim>\<open>racwdxltmeiyf\<close> that occur in \<open>s\<close>, in that order, each once.
\<close>

theorem permissions_normalise:
  "list_all (\<lambda>c. c \<in> set permission_letters) s \<Longrightarrow>
   \<exists>p. ContainerSASPermissions_parse s = Inr p \<and>
       ContainerSASPermissions_toString p = filter (\<lambda>c. c \<in> set s) permission_letters"
  by (simp add: ContainerSASPermissions_parse_def no_permissions_perm_of_set
      parse_permissions_from_valid toString_perm_of_set)

theorem permissions_normalise_witness:
  "list_all (\<lambda>c. c \<in> set permission_letters) ''lrl'' \<and>
   (\<exists>p. ContainerSASPermissions_parse ''lrl'' = Inr p \<and> ContainerSASPermissions_toString p = ''rl'')"
proof -
  have h: "list_all (\<lambda>c. c \<in> set permission_letters) ''lrl''"
    by (simp add: permission_letters_def)
  have "filter (\<lambda>c. c \<in> set ''lrl'') permission_letters = ''rl''"
    by (simp add: permission_letters_def)
  with h permissions_normalise [OF h] show ?thesis by simp
qed

text \<open>
  C28. A permission string with a letter outside \<^verbatim>\<open>racwdxltmeiyf\<close> is rejected,
  with the first such letter in the error: \<^verbatim>\<open>parse\<close> throws at the first invalid
  character whatever follows.
\<close>

theorem permissions_invalid_letter:
  assumes "\<not> list_all (\<lambda>c. c \<in> set permission_letters) s"
  shows "ContainerSASPermissions_parse s =
           Inl (InvalidPermission (hd (dropWhile (\<lambda>c. c \<in> set permission_letters) s)))"
proof -
  let ?v = "\<lambda>c. c \<in> set permission_letters"
  have "dropWhile ?v s \<noteq> []"
    using assms by (simp add: list_all_iff dropWhile_eq_Nil_conv)
  then obtain c rest where d: "dropWhile ?v s = c # rest"
    by (cases "dropWhile ?v s") auto
  then have c: "\<not> ?v c"
    by (simp add: dropWhile_eq_Cons_conv)
  have s: "s = takeWhile ?v s @ c # rest"
    using d takeWhile_dropWhile_id [of ?v s] by simp
  have pre: "list_all ?v (takeWhile ?v s)"
    by (simp add: list_all_iff) (meson set_takeWhileD)
  have "ContainerSASPermissions_parse (takeWhile ?v s @ c # rest) = Inl (InvalidPermission c)"
    unfolding ContainerSASPermissions_parse_def no_permissions_perm_of_set
    by (simp add: parse_permissions_from_append parse_permissions_from_valid [OF pre]
        set_permission_invalid [OF c])
  with s d show ?thesis by (metis list.sel(1))
qed

theorem permissions_invalid_letter_witness:
  "\<not> list_all (\<lambda>c. c \<in> set permission_letters) ''rX'' \<and>
   ContainerSASPermissions_parse ''rX'' = Inl (InvalidPermission CHR ''X'')"
proof -
  have h: "\<not> list_all (\<lambda>c. c \<in> set permission_letters) ''rX''"
    by (simp add: permission_letters_def)
  have "hd (dropWhile (\<lambda>c. c \<in> set permission_letters) ''rX'') = CHR ''X''"
    by (simp add: permission_letters_def)
  with h permissions_invalid_letter [OF h] show ?thesis by simp
qed

end
