(* ===== verification/Identity.thy ===== *)
theory Identity
  imports Prelude
begin

text \<open>
  The credential of line 30, \<^verbatim>\<open>new DefaultAzureCredential()\<close> of
  \<^verbatim>\<open>@azure/identity\<close>, and its use by the key request of line 34. A
  \<^verbatim>\<open>DefaultAzureCredential\<close> is a \<^verbatim>\<open>ChainedTokenCredential\<close> over a fixed list of
  sources (environment, workload and managed identity, developer tool logins);
  \<^verbatim>\<open>getToken\<close> asks them in order and returns the first token. A source that is
  not available (\<^verbatim>\<open>CredentialUnavailableError\<close>, \<^verbatim>\<open>AuthenticationRequiredError\<close>)
  or answers \<^verbatim>\<open>null\<close> passes to the next; any other error ends the chain. When
  no source gives a token the chain throws \<^verbatim>\<open>AggregateAuthenticationError\<close> with
  the collected errors, or \<^verbatim>\<open>CredentialUnavailableError\<close> when there are none.
  Which sources the list holds depends on the library release and the host: it is
  a parameter, as each source's answer is. The blob client's pipeline asks the
  credential for a bearer token and sends the key request with it.
\<close>

section \<open>Credentials and their errors\<close>

datatype credential_error =
    CredentialUnavailableError string
  | AuthenticationRequiredError string
  | AuthenticationError string

datatype chain_error =
    AggregateAuthenticationError "credential_error list"
  | ChainThrown credential_error

text \<open>One source's answer to \<^verbatim>\<open>getToken\<close>: an error, \<^verbatim>\<open>null\<close> or a token.\<close>

type_synonym source_answer = "credential_error + string option"

text \<open>The errors the chain collects and passes over (\<^verbatim>\<open>err.name\<close> test).\<close>

definition chain_skips :: "credential_error \<Rightarrow> bool" where
  "chain_skips e =
     (case e of CredentialUnavailableError _ \<Rightarrow> True | AuthenticationRequiredError _ \<Rightarrow> True
      | AuthenticationError _ \<Rightarrow> False)"

section \<open>\<^verbatim>\<open>ChainedTokenCredential.getToken\<close>\<close>

text \<open>
  The loop \<^verbatim>\<open>for (i = 0; i < sources.length && token === null; i++)\<close> with its
  \<^verbatim>\<open>try\<close>/\<^verbatim>\<open>catch\<close>, then the checks after it. The result pairs the outcome with
  the number of sources whose \<^verbatim>\<open>getToken\<close> was called.
\<close>

fun chain_get_token :: "source_answer list \<Rightarrow> credential_error list \<Rightarrow> (chain_error + string) \<times> nat" where
  "chain_get_token [] errors =
     (if errors \<noteq> [] then (Inl (AggregateAuthenticationError errors), 0)
      else (Inl (ChainThrown (CredentialUnavailableError ''Failed to retrieve a valid token'')), 0))"
| "chain_get_token (answer # rest) errors =
     (case answer of
        Inr (Some token) \<Rightarrow> (Inr token, 1)
      | Inr None \<Rightarrow> (let (r, n) = chain_get_token rest errors in (r, Suc n))
      | Inl err \<Rightarrow>
          if chain_skips err
          then (let (r, n) = chain_get_token rest (errors @ [err]) in (r, Suc n))
          else (Inl (ChainThrown err), 1))"

definition DefaultAzureCredential_getToken :: "source_answer list \<Rightarrow> (chain_error + string) \<times> nat" where
  "DefaultAzureCredential_getToken sources = chain_get_token sources []"

section \<open>The key request with the credential (line 34)\<close>

definition credential_error_message :: "credential_error \<Rightarrow> string" where
  "credential_error_message e =
     (case e of CredentialUnavailableError m \<Rightarrow> ''CredentialUnavailableError: '' @ m
      | AuthenticationRequiredError m \<Rightarrow> ''AuthenticationRequiredError: '' @ m
      | AuthenticationError m \<Rightarrow> ''AuthenticationError: '' @ m)"

definition chain_error_message :: "chain_error \<Rightarrow> string" where
  "chain_error_message e =
     (case e of
        AggregateAuthenticationError errs \<Rightarrow>
          ''AggregateAuthenticationError: ChainedTokenCredential authentication failed.''
      | ChainThrown err \<Rightarrow> credential_error_message err)"

text \<open>
  \<^verbatim>\<open>blobStorage.getUserDelegationKey(start, expiry)\<close>: the bearer-token policy asks
  the credential for a token; a failure rejects the request with the credential's
  error, a token goes with the request to the service, whose answer (a key, or an
  error such as a missing role assignment) is the result.
\<close>

definition getUserDelegationKey ::
  "source_answer list \<Rightarrow> (string \<Rightarrow> string \<Rightarrow> int \<Rightarrow> int \<Rightarrow> string + 'k) \<Rightarrow>
   string \<Rightarrow> int \<Rightarrow> int \<Rightarrow> string + 'k" where
  "getUserDelegationKey sources service url start expiry =
     (case fst (DefaultAzureCredential_getToken sources) of
        Inl e \<Rightarrow> Inl (chain_error_message e)
      | Inr token \<Rightarrow> service token url start expiry)"

text \<open>A source's answer that hands the turn to the next source, and the errors the
  chain collects from a list of such answers.\<close>

definition passes_turn :: "source_answer \<Rightarrow> bool" where
  "passes_turn a = (case a of Inr None \<Rightarrow> True | Inr (Some _) \<Rightarrow> False | Inl e \<Rightarrow> chain_skips e)"

definition collected_errors :: "source_answer list \<Rightarrow> credential_error list" where
  "collected_errors as = concat (map (\<lambda>a. case a of Inl e \<Rightarrow> [e] | Inr _ \<Rightarrow> []) as)"

section \<open>Lemmas\<close>

lemma chain_get_token_passes:
  "\<forall>a\<in>set pre. passes_turn a \<Longrightarrow>
   chain_get_token (pre @ rest) errors =
     (fst (chain_get_token rest (errors @ collected_errors pre)),
      length pre + snd (chain_get_token rest (errors @ collected_errors pre)))"
proof (induction pre arbitrary: errors)
  case Nil
  then show ?case by (simp add: collected_errors_def)
next
  case (Cons a pre)
  then show ?case
    by (auto simp: passes_turn_def collected_errors_def split: sum.splits option.splits prod.splits)
qed

lemma getUserDelegationKey_no_token:
  "\<forall>a\<in>set sources. passes_turn a \<Longrightarrow>
   \<exists>msg. getUserDelegationKey sources service url start expiry = Inl msg"
  using chain_get_token_passes [of sources "[]" "[]"]
  by (simp add: getUserDelegationKey_def DefaultAzureCredential_getToken_def)

section \<open>Properties of the credential chain\<close>

text \<open>
  C29. The credential returns the token of the first source that has one, after
  asking exactly the sources before it (each unavailable or \<^verbatim>\<open>null\<close>) and that
  one: the sources after it are never asked.
\<close>

theorem chain_first_token:
  "\<forall>a\<in>set pre. passes_turn a \<Longrightarrow>
   DefaultAzureCredential_getToken (pre @ Inr (Some t) # post) = (Inr t, Suc (length pre))"
  by (simp add: DefaultAzureCredential_getToken_def chain_get_token_passes)

theorem chain_first_token_witness:
  "DefaultAzureCredential_getToken
     [Inl (CredentialUnavailableError ''EnvironmentCredential is unavailable.''), Inr None,
      Inr (Some ''eyJ0''), Inl (AuthenticationError ''never asked'')] = (Inr ''eyJ0'', 3)"
proof -
  have h: "\<forall>a\<in>set [Inl (CredentialUnavailableError ''EnvironmentCredential is unavailable.''), Inr None].
      passes_turn a"
    by (simp add: passes_turn_def chain_skips_def)
  show ?thesis
    using h chain_first_token [OF h, of "''eyJ0''" "[Inl (AuthenticationError ''never asked'')]"] by simp
qed

text \<open>
  C30. A source failing with an error other than unavailability ends the chain with
  that error: no later source is asked, even one that has a token. A managed
  identity endpoint that answers with an error thus hides a working developer login.
\<close>

theorem chain_stops_on_error:
  "\<forall>a\<in>set pre. passes_turn a \<Longrightarrow> \<not> chain_skips e \<Longrightarrow>
   DefaultAzureCredential_getToken (pre @ Inl e # post) = (Inl (ChainThrown e), Suc (length pre))"
  by (simp add: DefaultAzureCredential_getToken_def chain_get_token_passes)

theorem chain_stops_on_error_witness:
  "\<not> chain_skips (AuthenticationError ''ManagedIdentityCredential: 400'') \<and>
   DefaultAzureCredential_getToken
     [Inl (CredentialUnavailableError ''EnvironmentCredential is unavailable.''),
      Inl (AuthenticationError ''ManagedIdentityCredential: 400''), Inr (Some ''eyJ0'')] =
     (Inl (ChainThrown (AuthenticationError ''ManagedIdentityCredential: 400'')), 2)"
proof -
  have h: "\<forall>a\<in>set [Inl (CredentialUnavailableError ''EnvironmentCredential is unavailable.'')].
      passes_turn a"
    by (simp add: passes_turn_def chain_skips_def)
  have e: "\<not> chain_skips (AuthenticationError ''ManagedIdentityCredential: 400'')"
    by (simp add: chain_skips_def)
  show ?thesis
    using h e chain_stops_on_error [OF h e, of "[Inr (Some ''eyJ0'')]"] by simp
qed

text \<open>
  C31. When every source is unavailable or answers \<^verbatim>\<open>null\<close>, all of them are asked
  and the chain fails: with \<^verbatim>\<open>AggregateAuthenticationError\<close> holding the sources'
  errors in order, or with \<^verbatim>\<open>CredentialUnavailableError\<close> when none threw.
\<close>

theorem chain_no_token:
  "\<forall>a\<in>set sources. passes_turn a \<Longrightarrow>
   DefaultAzureCredential_getToken sources =
     (if collected_errors sources \<noteq> []
      then Inl (AggregateAuthenticationError (collected_errors sources))
      else Inl (ChainThrown (CredentialUnavailableError ''Failed to retrieve a valid token'')),
      length sources)"
  using chain_get_token_passes [of sources "[]" "[]"]
  by (simp add: DefaultAzureCredential_getToken_def)

theorem chain_no_token_witness:
  "DefaultAzureCredential_getToken
     [Inl (CredentialUnavailableError ''EnvironmentCredential is unavailable.''), Inr None,
      Inl (AuthenticationRequiredError ''Interactive login required.'')] =
     (Inl (AggregateAuthenticationError
            [CredentialUnavailableError ''EnvironmentCredential is unavailable.'',
             AuthenticationRequiredError ''Interactive login required.'']), 3)"
proof -
  have h: "\<forall>a\<in>set [Inl (CredentialUnavailableError ''EnvironmentCredential is unavailable.''), Inr None,
              Inl (AuthenticationRequiredError ''Interactive login required.'')]. passes_turn a"
    by (simp add: passes_turn_def chain_skips_def)
  show ?thesis
    using h chain_no_token [OF h] by (simp add: collected_errors_def)
qed

end
