(* ===== verification/Provisioner.thy ===== *)
theory Provisioner
  imports Sas_Sdk Identity
begin

text \<open>
  The token provisioner, \<^verbatim>\<open>getReadOnlySasQueryParameter\<close> of
  \<^verbatim>\<open>src/src/index.ts\<close> lines 29--49. What it reads of the outside world is explicit
  state: the wall clock, read by each \<^verbatim>\<open>new Date()\<close> in evaluation order, the storage
  service's answer to \<^verbatim>\<open>getUserDelegationKey\<close> (a key, or a rejection that carries
  the message of the identity or network failure), and the HMAC the SDK signs with.
  \<^verbatim>\<open>new DefaultAzureCredential()\<close> and \<^verbatim>\<open>new BlobServiceClient(...)\<close> only build
  objects; their failures surface as the rejection of the key request.
\<close>

section \<open>The world the provisioner reads\<close>

record world =
  clock :: "nat \<Rightarrow> ms"
    \<comment> \<open>the time returned by the \<open>n\<close>-th clock reading of the process\<close>
  reads :: nat
    \<comment> \<open>clock readings made so far\<close>
  delegation_key_service :: "string \<Rightarrow> ms \<Rightarrow> ms \<Rightarrow> string + user_delegation_key"
    \<comment> \<open>\<^verbatim>\<open>getUserDelegationKey(start, expiry)\<close> on the client of the given URL\<close>
  sas_sign :: "string \<Rightarrow> string \<Rightarrow> string"
    \<comment> \<open>the SDK's HMAC-SHA256 of a message under a key value\<close>

text \<open>\<^verbatim>\<open>new Date()\<close>: the next clock reading.\<close>

definition new_Date :: "world \<Rightarrow> ms \<times> world" where
  "new_Date w = (clock w (reads w), w\<lparr>reads := Suc (reads w)\<rparr>)"

text \<open>A clock that never goes back, the hypothesis of the timing lemmas.\<close>

definition monotone_clock :: "world \<Rightarrow> bool" where
  "monotone_clock w \<longleftrightarrow> (\<forall>i j. i \<le> j \<longrightarrow> clock w i \<le> clock w j)"

section \<open>\<^verbatim>\<open>getReadOnlySasQueryParameter\<close>\<close>

text \<open>Line 31.\<close>

definition blobStorageUrl :: "string \<Rightarrow> string" where
  "blobStorageUrl account = ''https://'' @ account @ ''.blob.core.windows.net/''"

text \<open>The signature values of lines 36--43, given the parsed permissions and the
  two clock readings of lines 39 and 40.\<close>

definition read_only_sas_values ::
  "string \<Rightarrow> container_sas_permissions \<Rightarrow> ms \<Rightarrow> ms \<Rightarrow> blob_sas_values" where
  "read_only_sas_values container perms now_start now_expiry =
     \<lparr>containerName = container,
      permissions = Some perms,
      startsOn = Some now_start,
      expiresOn = Some (now_expiry + 86400),
      ipRange = Some \<lparr>ip_start = ''0.0.0.0'', ip_end = Some ''255.255.255.255''\<rparr>,
      protocol = Some Https\<rparr>"

text \<open>
  Lines 29--49 in evaluation order: the URL, the two clock readings of the key
  request's arguments (line 34), the awaited key request, \<^verbatim>\<open>parse("r")\<close> and the two
  clock readings of the object literal (lines 38--40), signing (line 35) and
  \<^verbatim>\<open>toString()\<close> (line 48). Every exception is an \<open>Inl\<close>.
\<close>

definition getReadOnlySasQueryParameter ::
  "string \<Rightarrow> string \<Rightarrow> world \<Rightarrow> (error + string) \<times> world" where
  "getReadOnlySasQueryParameter account container w0 =
     (let url = blobStorageUrl account;
          (keyStart, w1) = new_Date w0;
          (now1, w2) = new_Date w1
      in case delegation_key_service w2 url keyStart (now1 + 100000) of
           Inl msg \<Rightarrow> (Inl (KeyServiceError msg), w2)
         | Inr userDelegationKey \<Rightarrow>
             (case ContainerSASPermissions_parse ''r'' of
                Inl e \<Rightarrow> (Inl e, w2)
              | Inr perms \<Rightarrow>
                  (let (startsOn, w3) = new_Date w2;
                       (now3, w4) = new_Date w3
                   in case generateBlobSASQueryParameters (sas_sign w4)
                             (read_only_sas_values container perms startsOn now3)
                             userDelegationKey account of
                        Inl e \<Rightarrow> (Inl e, w4)
                      | Inr sasQueryParams \<Rightarrow> (Inr (SASQueryParameters_toString sasQueryParams), w4))))"

text \<open>The query parameters the SDK returns for the values of lines 36--43 under
  key \<open>k\<close>, for the clock readings \<open>t2\<close>, \<open>t3\<close> of lines 39--40.\<close>

definition provisioned_parameters ::
  "world \<Rightarrow> user_delegation_key \<Rightarrow> string \<Rightarrow> string \<Rightarrow> ms \<Rightarrow> ms \<Rightarrow> sas_query_parameters" where
  "provisioned_parameters w k account container t2 t3 =
     (let v = read_only_sas_values container (no_permissions\<lparr>read := True\<rparr>) t2 t3
      in \<lparr>qp_version = SERVICE_VERSION, qp_protocol = protocol v,
          qp_startsOn = startsOn v, qp_expiresOn = expiresOn v, qp_ipRange = ipRange v,
          qp_signedObjectId = signedObjectId k, qp_signedTenantId = signedTenantId k,
          qp_signedStartsOn = signedStartsOn k, qp_signedExpiresOn = signedExpiresOn k,
          qp_signedService = signedService k, qp_signedVersion = signedVersion k,
          qp_resource = ''c'', qp_permissions = Some ''r'',
          qp_signature = sas_sign w (key_value k) (blob_sas_string_to_sign ''r'' v k account)\<rparr>)"

section \<open>Example worlds\<close>

definition example_key :: user_delegation_key where
  "example_key =
     \<lparr>signedObjectId = ''oid'', signedTenantId = ''tid'', signedStartsOn = 1609459200000,
      signedExpiresOn = 1609459300000, signedService = ''b'', signedVersion = ''2020-10-02'',
      key_value = ''a2V5''\<rparr>"

text \<open>A clock that advances 250 ms between readings, a key service that answers, a
  fixed signature.\<close>

definition example_world :: world where
  "example_world =
     \<lparr>clock = (\<lambda>n. 1609459200000 + 250 * int n), reads = 0,
      delegation_key_service = (\<lambda>url start expiry. Inr example_key),
      sas_sign = (\<lambda>key message. ''c2ln'')\<rparr>"

text \<open>The same world without credentials: the key request is rejected.\<close>

definition offline_world :: world where
  "offline_world =
     example_world\<lparr>delegation_key_service := (\<lambda>url start expiry. Inl ''CredentialUnavailableError'')\<rparr>"

text \<open>The example world on a host where no credential source is available: the
  key request is made through \<^verbatim>\<open>DefaultAzureCredential\<close> and fails.\<close>

definition no_credential_world :: world where
  "no_credential_world =
     example_world\<lparr>delegation_key_service :=
       getUserDelegationKey [Inl (CredentialUnavailableError ''EnvironmentCredential is unavailable.'')]
         (\<lambda>token url start expiry. Inr example_key)\<rparr>"

text \<open>The token the example world yields.\<close>

definition example_token :: string where
  "example_token =
     SASQueryParameters_toString (provisioned_parameters (example_world\<lparr>reads := 4\<rparr>)
       example_key ''contoso'' ''sourcemaps'' 1609459200500 1609459200750)"

section \<open>Lemmas\<close>

lemma new_Date_simps [simp]:
  "fst (new_Date w) = clock w (reads w)"
  "snd (new_Date w) = w\<lparr>reads := Suc (reads w)\<rparr>"
  by (simp_all add: new_Date_def)

text \<open>The whole run in closed form: the key request and its failure, or the token.\<close>

lemma getReadOnlySasQueryParameter_eq:
  "getReadOnlySasQueryParameter account container w =
     (let r = reads w in
      case delegation_key_service w (blobStorageUrl account) (clock w r) (clock w (Suc r) + 100000) of
        Inl msg \<Rightarrow> (Inl (KeyServiceError msg), w\<lparr>reads := r + 2\<rparr>)
      | Inr k \<Rightarrow>
          (Inr (SASQueryParameters_toString
                  (provisioned_parameters (w\<lparr>reads := r + 4\<rparr>) k account container
                     (clock w (r + 2)) (clock w (r + 3)))),
           w\<lparr>reads := r + 4\<rparr>))"
  by (simp add: getReadOnlySasQueryParameter_def new_Date_def Let_def
      ContainerSASPermissions_parse_r generateBlobSASQueryParameters_def
      read_only_sas_values_def ContainerSASPermissions_toString_r provisioned_parameters_def
      numeral_eq_Suc split: sum.splits)

lemma getReadOnlySasQueryParameter_Inr:
  "fst (getReadOnlySasQueryParameter a c w) = Inr tok \<Longrightarrow>
   \<exists>k. delegation_key_service w (blobStorageUrl a) (clock w (reads w)) (clock w (Suc (reads w)) + 100000) = Inr k \<and>
       tok = SASQueryParameters_toString
               (provisioned_parameters (w\<lparr>reads := reads w + 4\<rparr>) k a c (clock w (reads w + 2)) (clock w (reads w + 3)))"
  by (auto simp: getReadOnlySasQueryParameter_eq Let_def split: sum.splits)

lemma provisioned_parameters_window [simp]:
  "qp_startsOn (provisioned_parameters w k a c t2 t3) = Some t2"
  "qp_expiresOn (provisioned_parameters w k a c t2 t3) = Some (t3 + 86400)"
  by (simp_all add: provisioned_parameters_def read_only_sas_values_def Let_def)

lemma provisioned_parameters_lookup:
  "map_of (present_params (sas_query_pairs (provisioned_parameters w k a c t2 t3))) ''sp'' = Some ''r'' \<and>
   map_of (present_params (sas_query_pairs (provisioned_parameters w k a c t2 t3))) ''spr'' = Some ''https'' \<and>
   map_of (present_params (sas_query_pairs (provisioned_parameters w k a c t2 t3))) ''sr'' = Some ''c'' \<and>
   map_of (present_params (sas_query_pairs (provisioned_parameters w k a c t2 t3))) ''sip'' =
     Some ''0.0.0.0-255.255.255.255'' \<and>
   map_of (present_params (sas_query_pairs (provisioned_parameters w k a c t2 t3))) ''st'' =
     Some (truncatedISO8061Date t2) \<and>
   map_of (present_params (sas_query_pairs (provisioned_parameters w k a c t2 t3))) ''se'' =
     Some (truncatedISO8061Date (t3 + 86400))"
  by (simp only: map_of_present_params [OF distinct_sas_query_keys])
     (simp add: sas_query_pairs_def provisioned_parameters_def read_only_sas_values_def Let_def
      sas_protocol_string_def ipRangeToString_def)

lemma provisioned_token_query:
  "fst (getReadOnlySasQueryParameter a c w) = Inr tok \<Longrightarrow>
   \<exists>k. parse_query tok = Some (present_params (sas_query_pairs
          (provisioned_parameters (w\<lparr>reads := reads w + 4\<rparr>) k a c (clock w (reads w + 2)) (clock w (reads w + 3)))))"
  by (drule getReadOnlySasQueryParameter_Inr) (metis parse_SASQueryParameters_toString)

lemma example_world_key [simp]:
  "delegation_key_service example_world u s e = Inr example_key"
  "delegation_key_service offline_world u s e = Inl ''CredentialUnavailableError''"
  "reads example_world = 0" "reads offline_world = 0"
  by (simp_all add: example_world_def offline_world_def)

lemma example_provision:
  "getReadOnlySasQueryParameter ''contoso'' ''sourcemaps'' example_world =
     (Inr example_token, example_world\<lparr>reads := 4\<rparr>)"
  by (simp add: getReadOnlySasQueryParameter_eq example_token_def) (simp add: example_world_def)

lemma example_world_monotone: "monotone_clock example_world"
  by (simp add: monotone_clock_def example_world_def)

lemma encodeURIComponent_version: "encodeURIComponent SERVICE_VERSION = SERVICE_VERSION"
  by (simp add: SERVICE_VERSION_def encodeURIComponent_def encode_char_def uri_unreserved_def)

lemma provisioned_token_starts_with_version:
  "\<exists>rest. SASQueryParameters_toString (provisioned_parameters w k a c t2 t3) =
     ''sv='' @ SERVICE_VERSION @ CHR ''&'' # rest"
proof -
  have "present_params (sas_query_pairs (provisioned_parameters w k a c t2 t3)) =
          (''sv'', SERVICE_VERSION) # (''spr'', ''https'') #
            present_params (drop 2 (sas_query_pairs (provisioned_parameters w k a c t2 t3)))"
    by (simp add: sas_query_pairs_def provisioned_parameters_def read_only_sas_values_def
        present_params_def SERVICE_VERSION_def sas_protocol_string_def)
  moreover have "encodeURIComponent ''sv'' = ''sv''"
    by (simp add: encodeURIComponent_def encode_char_def uri_unreserved_def)
  ultimately show ?thesis
    by (simp add: SASQueryParameters_toString_def query_string_def fold_tryAppend
        encodeURIComponent_version)
qed

section \<open>Properties of the provisioner\<close>

text \<open>
  C5. The token's validity window starts at the clock reading of line 39 and ends
  86400 \<^emph>\<open>milliseconds\<close> after the reading of line 40: with a clock that does not go
  back the window is non-empty and lasts 86.4 seconds plus the time between the two
  readings, not the day the comment and the specification intend.
\<close>

theorem sas_validity_window:
  assumes "monotone_clock w"
    and "fst (getReadOnlySasQueryParameter a c w) = Inr tok"
  shows "\<exists>q s e. tok = SASQueryParameters_toString q \<and>
           qp_startsOn q = Some s \<and> qp_expiresOn q = Some e \<and> s < e \<and>
           e - s = 86400 + (clock w (reads w + 3) - clock w (reads w + 2))"
proof -
  let ?t2 = "clock w (reads w + 2)" and ?t3 = "clock w (reads w + 3)"
  obtain k where tok: "tok = SASQueryParameters_toString
      (provisioned_parameters (w\<lparr>reads := reads w + 4\<rparr>) k a c ?t2 ?t3)"
    using getReadOnlySasQueryParameter_Inr [OF assms(2)] by blast
  let ?q = "provisioned_parameters (w\<lparr>reads := reads w + 4\<rparr>) k a c ?t2 ?t3"
  have "reads w + 2 \<le> reads w + 3" by simp
  with assms(1) have le: "?t2 \<le> ?t3"
    unfolding monotone_clock_def by blast
  have "tok = SASQueryParameters_toString ?q \<and> qp_startsOn ?q = Some ?t2 \<and>
        qp_expiresOn ?q = Some (?t3 + 86400) \<and> ?t2 < ?t3 + 86400 \<and>
        (?t3 + 86400) - ?t2 = 86400 + (?t3 - ?t2)"
    using tok le by (simp only: provisioned_parameters_window simp_thms) linarith
  then show ?thesis by blast
qed

theorem sas_validity_window_witness:
  "monotone_clock example_world \<and>
   fst (getReadOnlySasQueryParameter ''contoso'' ''sourcemaps'' example_world) =
     Inr (SASQueryParameters_toString (provisioned_parameters (example_world\<lparr>reads := 4\<rparr>)
            example_key ''contoso'' ''sourcemaps'' 1609459200500 1609459200750)) \<and>
   (\<exists>q s e. SASQueryParameters_toString (provisioned_parameters (example_world\<lparr>reads := 4\<rparr>)
            example_key ''contoso'' ''sourcemaps'' 1609459200500 1609459200750) =
              SASQueryParameters_toString q \<and>
           qp_startsOn q = Some s \<and> qp_expiresOn q = Some e \<and> s < e \<and> e - s = 86650)"
proof -
  have run: "fst (getReadOnlySasQueryParameter ''contoso'' ''sourcemaps'' example_world) =
     Inr (SASQueryParameters_toString (provisioned_parameters (example_world\<lparr>reads := 4\<rparr>)
            example_key ''contoso'' ''sourcemaps'' 1609459200500 1609459200750))"
    by (simp add: getReadOnlySasQueryParameter_eq) (simp add: example_world_def)
  have "clock example_world (reads example_world + 3) - clock example_world (reads example_world + 2) = 250"
    by (simp add: example_world_def)
  then show ?thesis
    using sas_validity_window [OF example_world_monotone run] example_world_monotone run
    by simp
qed

text \<open>
  C12. The token reads back as a container SAS (\<^verbatim>\<open>sr=c\<close>) with permission set
  exactly \<^verbatim>\<open>r\<close>, protocol \<^verbatim>\<open>https\<close> only, every IPv4 address allowed, and start and
  expiry the ISO dates of the two clock readings of lines 39--40 (the expiry plus
  86400 ms).
\<close>

theorem provisioned_token_read_only:
  assumes "fst (getReadOnlySasQueryParameter a c w) = Inr tok"
  shows "\<exists>ps. parse_query tok = Some ps \<and>
           map_of ps ''sp'' = Some ''r'' \<and> map_of ps ''spr'' = Some ''https'' \<and>
           map_of ps ''sr'' = Some ''c'' \<and> map_of ps ''sip'' = Some ''0.0.0.0-255.255.255.255'' \<and>
           map_of ps ''st'' = Some (truncatedISO8061Date (clock w (reads w + 2))) \<and>
           map_of ps ''se'' = Some (truncatedISO8061Date (clock w (reads w + 3) + 86400))"
proof -
  let ?t2 = "clock w (reads w + 2)" and ?t3 = "clock w (reads w + 3)"
  obtain k where tok: "tok = SASQueryParameters_toString
      (provisioned_parameters (w\<lparr>reads := reads w + 4\<rparr>) k a c ?t2 ?t3)"
    using getReadOnlySasQueryParameter_Inr [OF assms] by blast
  let ?q = "provisioned_parameters (w\<lparr>reads := reads w + 4\<rparr>) k a c ?t2 ?t3"
  have "parse_query tok = Some (present_params (sas_query_pairs ?q))"
    by (simp only: tok parse_SASQueryParameters_toString)
  with provisioned_parameters_lookup [of "w\<lparr>reads := reads w + 4\<rparr>" k a c ?t2 ?t3]
  show ?thesis by blast
qed

theorem provisioned_token_read_only_witness:
  "fst (getReadOnlySasQueryParameter ''contoso'' ''sourcemaps'' example_world) =
     Inr (SASQueryParameters_toString (provisioned_parameters (example_world\<lparr>reads := 4\<rparr>)
            example_key ''contoso'' ''sourcemaps'' 1609459200500 1609459200750)) \<and>
   (\<exists>ps. parse_query (SASQueryParameters_toString (provisioned_parameters (example_world\<lparr>reads := 4\<rparr>)
            example_key ''contoso'' ''sourcemaps'' 1609459200500 1609459200750)) = Some ps \<and>
         map_of ps ''sp'' = Some ''r'' \<and> map_of ps ''spr'' = Some ''https'' \<and>
         map_of ps ''sr'' = Some ''c'' \<and> map_of ps ''sip'' = Some ''0.0.0.0-255.255.255.255'' \<and>
         map_of ps ''st'' = Some (truncatedISO8061Date 1609459200500) \<and>
         map_of ps ''se'' = Some (truncatedISO8061Date 1609459287150))"
proof -
  have run: "fst (getReadOnlySasQueryParameter ''contoso'' ''sourcemaps'' example_world) =
     Inr (SASQueryParameters_toString (provisioned_parameters (example_world\<lparr>reads := 4\<rparr>)
            example_key ''contoso'' ''sourcemaps'' 1609459200500 1609459200750))"
    by (simp add: getReadOnlySasQueryParameter_eq) (simp add: example_world_def)
  have "clock example_world (reads example_world + 2) = 1609459200500"
    "clock example_world (reads example_world + 3) + 86400 = 1609459287150"
    by (simp_all add: example_world_def)
  then show ?thesis
    using provisioned_token_read_only [OF run] run by simp
qed

text \<open>
  C13. When the key request is rejected (no credential, no network), the rejection
  is the provisioner's result: no token, and only the two clock readings of line 34
  were made.
\<close>

theorem key_failure_propagates:
  "delegation_key_service w (blobStorageUrl a) (clock w (reads w)) (clock w (Suc (reads w)) + 100000) = Inl msg \<Longrightarrow>
   getReadOnlySasQueryParameter a c w = (Inl (KeyServiceError msg), w\<lparr>reads := reads w + 2\<rparr>)"
  by (simp add: getReadOnlySasQueryParameter_eq Let_def)

theorem key_failure_propagates_witness:
  "delegation_key_service offline_world (blobStorageUrl ''contoso'') (clock offline_world (reads offline_world))
     (clock offline_world (Suc (reads offline_world)) + 100000) = Inl ''CredentialUnavailableError'' \<and>
   getReadOnlySasQueryParameter ''contoso'' ''sourcemaps'' offline_world =
     (Inl (KeyServiceError ''CredentialUnavailableError''), offline_world\<lparr>reads := 2\<rparr>)"
  using key_failure_propagates [of offline_world "''contoso''" "''CredentialUnavailableError''" "''sourcemaps''"]
  by simp

text \<open>
  C14. Signing cannot fail here: whenever the storage service issues a key, the
  provisioner returns a token, after exactly four clock readings.
\<close>

theorem provisioner_succeeds_with_key:
  "delegation_key_service w (blobStorageUrl a) (clock w (reads w)) (clock w (Suc (reads w)) + 100000) = Inr k \<Longrightarrow>
   \<exists>tok. getReadOnlySasQueryParameter a c w = (Inr tok, w\<lparr>reads := reads w + 4\<rparr>)"
  by (simp add: getReadOnlySasQueryParameter_eq Let_def)

theorem provisioner_succeeds_with_key_witness:
  "delegation_key_service example_world (blobStorageUrl ''contoso'') (clock example_world (reads example_world))
     (clock example_world (Suc (reads example_world)) + 100000) = Inr example_key \<and>
   (\<exists>tok. getReadOnlySasQueryParameter ''contoso'' ''sourcemaps'' example_world =
           (Inr tok, example_world\<lparr>reads := 4\<rparr>))"
  using provisioner_succeeds_with_key [of example_world "''contoso''" example_key "''sourcemaps''"]
  by simp

text \<open>
  C20. The user delegation key is requested to expire 100000 ms after the clock
  reading of line 34, the SAS it signs expires 86400 ms after the reading of line 40:
  the SAS outlives its key exactly when more than 13.6 seconds pass between the two
  readings (a slow key request), and the storage service then rejects it early.
\<close>

theorem sas_may_outlive_key:
  assumes "fst (getReadOnlySasQueryParameter a c w) = Inr tok"
  shows "\<exists>k q e. delegation_key_service w (blobStorageUrl a) (clock w (reads w))
                   (clock w (Suc (reads w)) + 100000) = Inr k \<and>
           tok = SASQueryParameters_toString q \<and> qp_expiresOn q = Some e \<and>
           (clock w (Suc (reads w)) + 100000 < e \<longleftrightarrow>
              13600 < clock w (reads w + 3) - clock w (Suc (reads w)))"
proof -
  obtain k where k: "delegation_key_service w (blobStorageUrl a) (clock w (reads w))
                   (clock w (Suc (reads w)) + 100000) = Inr k"
    and tok: "tok = SASQueryParameters_toString
      (provisioned_parameters (w\<lparr>reads := reads w + 4\<rparr>) k a c (clock w (reads w + 2)) (clock w (reads w + 3)))"
    using getReadOnlySasQueryParameter_Inr [OF assms] by blast
  have "clock w (Suc (reads w)) + 100000 < clock w (reads w + 3) + 86400 \<longleftrightarrow>
        13600 < clock w (reads w + 3) - clock w (Suc (reads w))" by linarith
  with k tok show ?thesis
    using provisioned_parameters_window by blast
qed

theorem sas_may_outlive_key_witness:
  "fst (getReadOnlySasQueryParameter ''contoso'' ''sourcemaps'' example_world) = Inr example_token \<and>
   (\<exists>k q e. delegation_key_service example_world (blobStorageUrl ''contoso'') 1609459200000 1609459300250 = Inr k \<and>
      example_token = SASQueryParameters_toString q \<and> qp_expiresOn q = Some e \<and>
      \<not> 1609459300250 < e)"
proof -
  have "clock example_world (Suc (reads example_world)) = 1609459200250"
    "clock example_world (reads example_world) = 1609459200000"
    "clock example_world (reads example_world + 3) = 1609459200750"
    by (simp_all add: example_world_def)
  then show ?thesis
    using sas_may_outlive_key [of "''contoso''" "''sourcemaps''" example_world example_token]
      example_provision by simp
qed

end
