(* ===== verification/Http_Proxy.thy ===== *)
theory Http_Proxy
  imports Proxy Query_String
begin

text \<open>
  What http-proxy (under http-proxy-middleware, \<^verbatim>\<open>src/src/index.ts\<close> lines 57--64)
  does with the rewritten path before the request leaves for the storage service.
  \<^verbatim>\<open>setupOutgoing\<close> takes the path of Node's legacy \<^verbatim>\<open>url.parse(req.url)\<close> and joins
  it to the target's path with \<^verbatim>\<open>common.urlJoin\<close>:
  \<^verbatim>\<open>outgoing.path = urlJoin(target.path, url.parse(req.url).path || '')\<close>. The target
  \<^verbatim>\<open>https://<account>.blob.core.windows.net\<close> has path \<^verbatim>\<open>/\<close>.

  \<^verbatim>\<open>url.parse\<close> is modelled for request targets that begin with a slash (every URL the
  mount forwards begins with \<^verbatim>\<open>/\<close> and the container name): surrounding
  whitespace is trimmed, backslashes before the first \<^verbatim>\<open>?\<close> or \<^verbatim>\<open>#\<close> become
  slashes; a target without \<^verbatim>\<open>#\<close> that matches the fast-path pattern
  \<^verbatim>\<open>^(\/\/?(?!\/)[^?\s]*)(\?[^\s]*)?$\<close> is its own path; any other is auto-escaped
  and its path is everything before the first \<^verbatim>\<open>#\<close> (the fragment is cut off).
  Targets beginning with \<^verbatim>\<open>//user@host\<close>, which \<^verbatim>\<open>url.parse\<close> reads as a host, are
  outside the model.
  The theory ends with the answer the client receives, including the response of
  http-proxy-middleware's default error handler when the storage request fails.
\<close>

section \<open>\<^verbatim>\<open>url.parse(req.url).path\<close>\<close>

text \<open>The characters the parse loop trims (space, tab, CR, LF, form feed, NBSP) and
  the \<^verbatim>\<open>\s\<close> class of the fast-path pattern (those and the vertical tab).\<close>

definition url_trim_char :: "char \<Rightarrow> bool" where
  "url_trim_char c = ((of_char c :: nat) \<in> {32, 9, 13, 10, 12, 160})"

definition regex_space :: "char \<Rightarrow> bool" where
  "regex_space c = ((of_char c :: nat) \<in> {9, 10, 11, 12, 13, 32, 160})"

definition url_trim :: "string \<Rightarrow> string" where
  "url_trim s = rev (dropWhile url_trim_char (rev (dropWhile url_trim_char s)))"

text \<open>Backslashes become slashes until the first \<^verbatim>\<open>?\<close> or \<^verbatim>\<open>#\<close>.\<close>

fun convert_backslashes :: "string \<Rightarrow> string" where
  "convert_backslashes [] = []"
| "convert_backslashes (c # cs) =
     (if c = CHR ''?'' \<or> c = CHR ''#'' then c # cs
      else if c = CHR 0x5C then CHR ''/'' # convert_backslashes cs
      else c # convert_backslashes cs)"

text \<open>The fast-path pattern: one or two leading slashes not followed by a third,
  and no whitespace anywhere.\<close>

definition simple_path :: "string \<Rightarrow> bool" where
  "simple_path s \<longleftrightarrow>
     take 1 s = ''/'' \<and> take 3 s \<noteq> ''///'' \<and> (\<forall>c\<in>set s. \<not> regex_space c)"

text \<open>\<^verbatim>\<open>autoEscapeStr\<close>: these characters are percent-encoded, all others kept.\<close>

definition auto_escape_char :: "char \<Rightarrow> bool" where
  "auto_escape_char c = ((of_char c :: nat) \<in> {9, 10, 13, 32, 34, 39, 60, 62, 92, 94, 96, 123, 124, 125})"

definition autoEscapeStr :: "string \<Rightarrow> string" where
  "autoEscapeStr s = concat (map (\<lambda>c. if auto_escape_char c then encode_char c else [c]) s)"

definition url_parse_path :: "string \<Rightarrow> string" where
  "url_parse_path url =
     (let rest = convert_backslashes (url_trim url)
      in if CHR ''#'' \<notin> set rest \<and> simple_path rest then rest
         else takeWhile (\<lambda>c. c \<noteq> CHR ''#'') (autoEscapeStr rest))"

section \<open>\<^verbatim>\<open>common.urlJoin\<close>\<close>

text \<open>JavaScript's \<^verbatim>\<open>s.replace(pattern, replacement)\<close> with a string pattern: the
  first occurrence only.\<close>

fun replace_first :: "string \<Rightarrow> string \<Rightarrow> string \<Rightarrow> string" where
  "replace_first pat rep [] = []"
| "replace_first pat rep (c # cs) =
     (if take (length pat) (c # cs) = pat then rep @ drop (length pat) (c # cs)
      else c # replace_first pat rep cs)"

text \<open>\<^verbatim>\<open>.replace(/\/+/g, '/')\<close>: every run of slashes becomes one slash.\<close>

fun collapse_slashes :: "string \<Rightarrow> string" where
  "collapse_slashes [] = []"
| "collapse_slashes [c] = [c]"
| "collapse_slashes (c # d # cs) =
     (if c = CHR ''/'' \<and> d = CHR ''/'' then collapse_slashes (d # cs)
      else c # collapse_slashes (d # cs))"

text \<open>
  \<^verbatim>\<open>urlJoin(targetPath, path)\<close>: the last argument is split at \<^verbatim>\<open>?\<close>; the non-empty
  arguments, the last cut to its first piece, are joined with \<^verbatim>\<open>/\<close>, runs of slashes
  collapsed, the first \<^verbatim>\<open>http:/\<close> and \<^verbatim>\<open>https:/\<close> given back their second slash;
  the other pieces follow, joined with \<^verbatim>\<open>?\<close>.
\<close>

definition urlJoin :: "string \<Rightarrow> string \<Rightarrow> string" where
  "urlJoin targetPath path =
     (let lastSegs = split_on CHR ''?'' path;
          joined = join_on CHR ''/'' (filter (\<lambda>s. s \<noteq> []) [targetPath, hd lastSegs]);
          fixed = replace_first ''https:/'' ''https://''
                    (replace_first ''http:/'' ''http://'' (collapse_slashes joined))
      in join_on CHR ''?'' (fixed # tl lastSegs))"

text \<open>The path of the request http-proxy sends for a (rewritten) request URL.\<close>

definition outgoing_path :: "string \<Rightarrow> string" where
  "outgoing_path reqUrl = urlJoin ''/'' (url_parse_path reqUrl)"

section \<open>The answer to the client\<close>

text \<open>
  What the storage request came to: an answer (status and body, which http-proxy
  streams back unchanged) or a failure before any answer, with the error's
  \<^verbatim>\<open>code\<close> (\<open>None\<close> when the error has none). What the client receives: express's
  404 for an unmounted path, the relayed answer, or the response of
  http-proxy-middleware's \<^verbatim>\<open>defaultErrorHandler\<close>, which is in force because the
  options of lines 57--64 set no \<^verbatim>\<open>onError\<close>.
\<close>

datatype upstream_outcome = UpstreamResponded nat string | UpstreamFailed "string option"

datatype client_response = Express404 | Relayed nat string | ProxyError nat string

text \<open>\<^verbatim>\<open>/HPE_INVALID/.test(code)\<close>: the pattern occurs in the code converted to a
  string (\<^verbatim>\<open>"undefined"\<close> for a missing code).\<close>

fun has_infix :: "string \<Rightarrow> string \<Rightarrow> bool" where
  "has_infix pat [] = (pat = [])"
| "has_infix pat (c # cs) = (take (length pat) (c # cs) = pat \<or> has_infix pat cs)"

definition js_string_of_code :: "string option \<Rightarrow> string" where
  "js_string_of_code code = (case code of None \<Rightarrow> ''undefined'' | Some c \<Rightarrow> c)"

text \<open>The status \<^verbatim>\<open>defaultErrorHandler\<close> writes: 502 for an HTTP parser error, 504 for
  the four connection errors of its \<^verbatim>\<open>switch\<close>, 500 otherwise.\<close>

definition hpm_error_status :: "string option \<Rightarrow> nat" where
  "hpm_error_status code =
     (if has_infix ''HPE_INVALID'' (js_string_of_code code) then 502
      else if code \<in> {Some ''ECONNRESET'', Some ''ENOTFOUND'', Some ''ECONNREFUSED'', Some ''ETIMEDOUT''}
      then 504 else 500)"

text \<open>\<^verbatim>\<open>res.end(`Error occurred while trying to proxy: ${host}${req.url}`)\<close>, with the
  client's \<^verbatim>\<open>Host\<close> header and \<^verbatim>\<open>req.url\<close> as \<^verbatim>\<open>pathRewrite\<close> left it.\<close>

definition defaultErrorHandler :: "string \<Rightarrow> string \<Rightarrow> string option \<Rightarrow> client_response" where
  "defaultErrorHandler host reqUrl code =
     ProxyError (hpm_error_status code) (''Error occurred while trying to proxy: '' @ host @ reqUrl)"

definition proxy_response ::
  "config \<Rightarrow> string \<Rightarrow> request \<Rightarrow> upstream_outcome \<Rightarrow> client_response" where
  "proxy_response cfg sasQueryParams req outcome =
     (case fst (serve_request cfg sasQueryParams req []) of
        NotFound \<Rightarrow> Express404
      | Proxied up \<Rightarrow>
          (case outcome of
             UpstreamResponded st b \<Rightarrow> Relayed st b
           | UpstreamFailed code \<Rightarrow> defaultErrorHandler (req_host req) (up_path up) code))"

section \<open>Lemmas\<close>

lemma dropWhile_none: "\<forall>c\<in>set s. \<not> P c \<Longrightarrow> dropWhile P s = s"
  by (cases s) auto

lemma url_trim_id: "\<forall>c\<in>set s. \<not> url_trim_char c \<Longrightarrow> url_trim s = s"
  by (simp add: url_trim_def dropWhile_none)

lemma url_trim_regex_space: "url_trim_char c \<Longrightarrow> regex_space c"
  by (auto simp: url_trim_char_def regex_space_def)

lemma convert_backslashes_plain:
  "CHR 0x5C \<notin> set u \<Longrightarrow> CHR ''?'' \<notin> set u \<Longrightarrow> CHR ''#'' \<notin> set u \<Longrightarrow>
   convert_backslashes (u @ CHR ''?'' # r) = u @ CHR ''?'' # r"
  by (induction u) auto

lemma collapse_slashes_double [simp]:
  "collapse_slashes (CHR ''/'' # CHR ''/'' # s) = collapse_slashes (CHR ''/'' # s)"
  by simp

lemma collapse_slashes_set: "set (collapse_slashes s) \<subseteq> set s"
  by (induction s rule: collapse_slashes.induct) auto

lemma replace_first_set: "set (replace_first pat rep s) \<subseteq> set s \<union> set rep"
proof (induction s)
  case Nil
  then show ?case by simp
next
  case (Cons c cs)
  then show ?case by (auto dest: in_set_dropD)
qed

lemma token_chars_plain:
  "\<forall>c\<in>set tok. uri_unreserved c \<or> c \<in> set ''%=&'' \<Longrightarrow>
   \<forall>c\<in>set tok. \<not> regex_space c \<and> c \<noteq> CHR ''?'' \<and> c \<noteq> CHR ''#''"
proof
  fix c assume a: "\<forall>c\<in>set tok. uri_unreserved c \<or> c \<in> set ''%=&''" and c: "c \<in> set tok"
  then have "uri_unreserved c \<or> c \<in> set ''%=&''" by blast
  then have "(of_char c :: nat) \<notin> {9, 10, 11, 12, 13, 32, 160, 63, 35}"
    by (auto simp: uri_unreserved_def)
  then show "\<not> regex_space c \<and> c \<noteq> CHR ''?'' \<and> c \<noteq> CHR ''#''"
    by (auto simp: regex_space_def)
qed

lemma take3_append:
  assumes "take 3 u \<noteq> ''///''" and "c \<noteq> CHR ''/''"
  shows "take 3 (u @ c # r) \<noteq> ''///''"
  using assms by (cases u rule: remdups_adj.cases) (auto simp: numeral_eq_Suc take_Cons')

lemma urlJoin_root:
  assumes "take 1 u = ''/''" and "CHR ''?'' \<notin> set u" and "CHR ''?'' \<notin> set tok"
  shows "urlJoin ''/'' (u @ CHR ''?'' # tok) =
           replace_first ''https:/'' ''https://'' (replace_first ''http:/'' ''http://'' (collapse_slashes u))
           @ CHR ''?'' # tok"
proof -
  obtain u' where u: "u = CHR ''/'' # u'"
    using assms(1) by (cases u) auto
  have sp: "split_on CHR ''?'' (u @ CHR ''?'' # tok) = [u, tok]"
    using assms(2,3) by (simp add: split_on_append_sep)
  have c: "collapse_slashes (join_on CHR ''/'' (filter (\<lambda>s. s \<noteq> []) [''/'', u])) = collapse_slashes u"
    by (simp add: u)
  show ?thesis
    unfolding urlJoin_def Let_def sp list.sel(1) list.sel(3) c by simp
qed

lemma outgoing_path_plain:
  assumes "take 1 u = ''/''" and "take 3 u \<noteq> ''///''"
    and "\<forall>c\<in>set u. \<not> regex_space c \<and> c \<noteq> CHR ''?'' \<and> c \<noteq> CHR ''#'' \<and> c \<noteq> CHR 0x5C"
    and "\<forall>c\<in>set tok. uri_unreserved c \<or> c \<in> set ''%=&''"
  shows "outgoing_path (u @ CHR ''?'' # tok) =
           replace_first ''https:/'' ''https://'' (replace_first ''http:/'' ''http://'' (collapse_slashes u))
           @ CHR ''?'' # tok"
proof -
  have t: "\<forall>c\<in>set tok. \<not> regex_space c \<and> c \<noteq> CHR ''?'' \<and> c \<noteq> CHR ''#''"
    using token_chars_plain [OF assms(4)] .
  have ns: "\<forall>c\<in>set (u @ CHR ''?'' # tok). \<not> regex_space c"
    using assms(3) t by (auto simp: regex_space_def)
  have trim: "url_trim (u @ CHR ''?'' # tok) = u @ CHR ''?'' # tok"
    by (rule url_trim_id) (use ns url_trim_regex_space in blast)
  have conv: "convert_backslashes (u @ CHR ''?'' # tok) = u @ CHR ''?'' # tok"
    using assms(3) by (intro convert_backslashes_plain) auto
  have "simple_path (u @ CHR ''?'' # tok)"
    using assms(1) take3_append [OF assms(2)] ns by (cases u) (simp_all add: simple_path_def)
  moreover have "CHR ''#'' \<notin> set (u @ CHR ''?'' # tok)"
    using assms(3) t by auto
  ultimately have "url_parse_path (u @ CHR ''?'' # tok) = u @ CHR ''?'' # tok"
    by (simp add: url_parse_path_def trim conv)
  moreover have "CHR ''?'' \<notin> set u" "CHR ''?'' \<notin> set tok"
    using assms(3) t by auto
  ultimately show ?thesis
    using urlJoin_root [OF assms(1)] by (simp add: outgoing_path_def)
qed

lemma dropWhile_keeps_sep:
  "\<not> P c \<Longrightarrow> \<exists>zs. dropWhile P (xs @ c # ys) = zs @ c # ys"
proof (induction xs)
  case Nil
  then show ?case by auto
next
  case (Cons x xs)
  then show ?case by (cases "P x") auto
qed

lemma url_trim_sep:
  assumes "take 1 p = ''/''" and "\<not> url_trim_char c"
  shows "\<exists>r'. url_trim (p @ c # r) = p @ c # r'"
proof -
  obtain p' where p: "p = CHR ''/'' # p'"
    using assms(1) by (cases p) auto
  have "\<not> url_trim_char CHR ''/''" by (simp add: url_trim_char_def)
  then have front: "dropWhile url_trim_char (p @ c # r) = p @ c # r"
    by (simp add: p)
  obtain zs where "dropWhile url_trim_char (rev r @ c # rev p) = zs @ c # rev p"
    using dropWhile_keeps_sep [of url_trim_char c, OF assms(2)] by blast
  then show ?thesis
    by (simp add: url_trim_def front)
qed

lemma convert_backslashes_sep:
  "CHR ''?'' \<notin> set p \<Longrightarrow> CHR ''#'' \<notin> set p \<Longrightarrow>
   convert_backslashes (p @ CHR ''#'' # r) = convert_backslashes p @ CHR ''#'' # r"
  by (induction p) auto

lemma convert_backslashes_set: "set (convert_backslashes s) \<subseteq> insert CHR ''/'' (set s)"
  by (induction s) auto

lemma autoEscapeStr_append: "autoEscapeStr (xs @ ys) = autoEscapeStr xs @ autoEscapeStr ys"
  by (simp add: autoEscapeStr_def)

lemma autoEscapeStr_hash: "autoEscapeStr (CHR ''#'' # ys) = CHR ''#'' # autoEscapeStr ys"
  by (simp add: autoEscapeStr_def auto_escape_char_def)

lemma autoEscapeStr_set:
  "x \<in> set (autoEscapeStr s) \<Longrightarrow> x \<in> set s \<or> x = CHR ''%'' \<or> uri_unreserved x"
  using encode_char_chars by (auto simp: autoEscapeStr_def split: if_splits)

lemma unreserved_not_query: "\<not> uri_unreserved CHR ''?''" "\<not> uri_unreserved CHR ''#''"
  by (simp_all add: uri_unreserved_def)

lemma urlJoin_no_query:
  assumes "CHR ''?'' \<notin> set path"
  shows "CHR ''?'' \<notin> set (urlJoin ''/'' path)"
proof -
  have sp: "split_on CHR ''?'' path = [path]" using assms by simp
  let ?j = "join_on CHR ''/'' (filter (\<lambda>s. s \<noteq> []) [''/'', path])"
  have "set ?j \<subseteq> insert CHR ''/'' (set path)"
    using set_join_on [of "CHR ''/''" "filter (\<lambda>s. s \<noteq> []) [''/'', path]"] by auto
  then have "set (replace_first ''https:/'' ''https://'' (replace_first ''http:/'' ''http://''
               (collapse_slashes ?j))) \<subseteq> set ''https://'' \<union> set ''http://'' \<union> insert CHR ''/'' (set path)"
    using collapse_slashes_set [of ?j] replace_first_set [of "''http:/''" "''http://''" "collapse_slashes ?j"]
      replace_first_set [of "''https:/''" "''https://''"
        "replace_first ''http:/'' ''http://'' (collapse_slashes ?j)"]
    by blast
  with assms show ?thesis
    unfolding urlJoin_def Let_def sp list.sel(1) list.sel(3) join_on.simps(2) by auto
qed

lemma mount_matches_slash:
  assumes "mount_matches (mount_path container) (url_pathname u)"
  shows "take 1 u = ''/''"
proof -
  obtain rest where "strip_prefix_ci (mount_path container) (url_pathname u) = Some rest"
    using assms by (auto simp: mount_matches_def split: option.splits)
  then obtain s1 where s: "url_pathname u = s1 @ rest"
    and l: "map ascii_lower s1 = map ascii_lower (CHR ''/'' # container)"
    by (auto simp: strip_prefix_ci_Some mount_path_def)
  have al: "ascii_lower CHR ''/'' = CHR ''/''"
    using ascii_lower_slash [of "CHR ''/''"] by simp
  obtain x s1' where "s1 = x # s1'" and "ascii_lower x = CHR ''/''"
    using l al by (cases s1) auto
  then have "take 1 (url_pathname u) = ''/''" by (simp add: s)
  then show ?thesis
    by (cases u) (auto simp: url_pathname_def split: if_splits)
qed

lemma hpm_error_status_cases:
  "hpm_error_status code \<in> {500, 502, 504}"
  "hpm_error_status code = 504 \<longleftrightarrow>
     code \<in> {Some ''ECONNRESET'', Some ''ENOTFOUND'', Some ''ECONNREFUSED'', Some ''ETIMEDOUT''}"
  "hpm_error_status code = 502 \<longleftrightarrow> has_infix ''HPE_INVALID'' (js_string_of_code code)"
  by (auto simp: hpm_error_status_def js_string_of_code_def)

lemma proxy_response_failed:
  "mount_matches (mount_path (StorageContainer cfg)) (url_pathname (req_url req)) \<Longrightarrow>
   proxy_response cfg tok req (UpstreamFailed code) =
     ProxyError (hpm_error_status code)
       (''Error occurred while trying to proxy: '' @ req_host req @ req_url req @ ''?'' @ tok)"
  by (simp add: proxy_response_def serve_request_eq defaultErrorHandler_def)

section \<open>Properties of the outgoing request\<close>

text \<open>
  C36. A request URL with a fragment loses the token: when \<^verbatim>\<open>#\<close> comes before any
  \<^verbatim>\<open>?\<close>, \<^verbatim>\<open>pathRewrite\<close> puts \<^verbatim>\<open>?token\<close> inside the fragment, \<^verbatim>\<open>url.parse\<close> cuts the
  fragment off, and the request http-proxy sends to the storage service has no query
  at all, so it carries no SAS.
\<close>

theorem fragment_drops_token:
  assumes "take 1 p = ''/''" and "CHR ''?'' \<notin> set p" and "CHR ''#'' \<notin> set p"
  shows "CHR ''?'' \<notin> set (outgoing_path (p @ CHR ''#'' # r))"
proof -
  have h: "\<not> url_trim_char CHR ''#''" by (simp add: url_trim_char_def)
  obtain r' where trim: "url_trim (p @ CHR ''#'' # r) = p @ CHR ''#'' # r'"
    using url_trim_sep [OF assms(1) h] by blast
  let ?cp = "convert_backslashes p"
  have conv: "convert_backslashes (p @ CHR ''#'' # r') = ?cp @ CHR ''#'' # r'"
    using assms(2,3) by (rule convert_backslashes_sep)
  have cp: "CHR ''?'' \<notin> set ?cp" "CHR ''#'' \<notin> set ?cp"
    using convert_backslashes_set [of p] assms(2,3) by auto
  have esc: "CHR ''?'' \<notin> set (autoEscapeStr ?cp)" "CHR ''#'' \<notin> set (autoEscapeStr ?cp)"
    using autoEscapeStr_set [of _ ?cp] cp unreserved_not_query by auto
  have "url_parse_path (p @ CHR ''#'' # r) =
          takeWhile (\<lambda>c. c \<noteq> CHR ''#'') (autoEscapeStr ?cp @ CHR ''#'' # autoEscapeStr r')"
    by (simp add: url_parse_path_def trim conv autoEscapeStr_append autoEscapeStr_hash)
  also have "\<dots> = autoEscapeStr ?cp"
    using esc(2) by (subst takeWhile_append2) auto
  finally have "url_parse_path (p @ CHR ''#'' # r) = autoEscapeStr ?cp" .
  with esc(1) show ?thesis
    by (simp add: outgoing_path_def urlJoin_no_query)
qed

theorem fragment_drops_token_witness:
  "CHR ''?'' \<notin> set (outgoing_path (''/sourcemaps/app.js.map'' @ CHR ''#'' # ''top?sv=2020-10-02&sig=x''))"
  by (rule fragment_drops_token) simp_all

section \<open>Properties of the answer to the client\<close>

text \<open>
  C39. When the storage request of a mounted request fails before any answer, the
  client gets the default error response of http-proxy-middleware: status 504 exactly
  for the four connection errors, 502 exactly for an HTTP parser error, 500 for every
  other error (a missing code included), and the body names the client's host and
  the rewritten URL, which carries the token after \<^verbatim>\<open>?\<close>.
\<close>

theorem proxy_error_response:
  assumes "mount_matches (mount_path (StorageContainer cfg)) (url_pathname (req_url req))"
  shows "\<exists>st. proxy_response cfg tok req (UpstreamFailed code) =
             ProxyError st (''Error occurred while trying to proxy: '' @ req_host req @ req_url req @ ''?'' @ tok) \<and>
           st \<in> {500, 502, 504} \<and>
           (st = 504 \<longleftrightarrow>
              code \<in> {Some ''ECONNRESET'', Some ''ENOTFOUND'', Some ''ECONNREFUSED'', Some ''ETIMEDOUT''}) \<and>
           (st = 502 \<longleftrightarrow> has_infix ''HPE_INVALID'' (js_string_of_code code))"
  using proxy_response_failed [OF assms] hpm_error_status_cases by simp

theorem proxy_error_response_witness:
  "mount_matches (mount_path (StorageContainer example_config)) (url_pathname (req_url example_request)) \<and>
   proxy_response example_config ''sv=2020-10-02&sig=x'' example_request (UpstreamFailed (Some ''ETIMEDOUT'')) =
     ProxyError 504 (''Error occurred while trying to proxy: '' @ req_host example_request @
                     ''/sourcemaps/app.js.map?sv=2020-10-02&sig=x'')"
proof -
  have m: "mount_matches (mount_path (StorageContainer example_config)) (url_pathname (req_url example_request))"
    by code_simp
  have u: "req_url example_request = ''/sourcemaps/app.js.map''"
    by (simp add: example_request_def)
  from proxy_error_response [OF m, where tok = "''sv=2020-10-02&sig=x''" and code = "Some ''ETIMEDOUT''"]
  obtain st where r: "proxy_response example_config ''sv=2020-10-02&sig=x'' example_request
                     (UpstreamFailed (Some ''ETIMEDOUT'')) =
        ProxyError st (''Error occurred while trying to proxy: '' @ req_host example_request @
                       req_url example_request @ ''?'' @ ''sv=2020-10-02&sig=x'')"
    and e: "st = 504 \<longleftrightarrow> Some ''ETIMEDOUT'' \<in>
           {Some ''ECONNRESET'', Some ''ENOTFOUND'', Some ''ECONNREFUSED'', Some ''ETIMEDOUT''}"
    by (elim exE conjE) (rule that; assumption)
  have "Some ''ETIMEDOUT'' \<in>
      {Some ''ECONNRESET'', Some ''ENOTFOUND'', Some ''ECONNREFUSED'', Some ''ETIMEDOUT''}"
    by simp
  with e have "st = 504" by blast
  with r have "proxy_response example_config ''sv=2020-10-02&sig=x'' example_request
                     (UpstreamFailed (Some ''ETIMEDOUT'')) =
        ProxyError 504 (''Error occurred while trying to proxy: '' @ req_host example_request @
                        req_url example_request @ ''?'' @ ''sv=2020-10-02&sig=x'')"
    by simp
  with m show ?thesis unfolding u by simp
qed

end
