(* ===== verification/Spec2Isabelle.thy ===== *)
theory Spec2Isabelle
  imports Startup Http_Proxy
begin

text \<open>
  \<^bold>\<open>A verification model of the source-maps proxy\<close> (\<^verbatim>\<open>src/src/index.ts\<close>).

  \<^bold>\<open>The program.\<close> One TypeScript module, three parts that run in sequence:
  \<^enum> configuration (lines 14--27): \<^verbatim>\<open>dotenv.config()\<close> merges \<^verbatim>\<open>.env\<close> into
    \<^verbatim>\<open>process.env\<close>; six variables are read and the module throws unless all are
    non-empty strings;
  \<^enum> the token provisioner \<^verbatim>\<open>getReadOnlySasQueryParameter\<close> (lines 29--49): asks the
    storage service for a user delegation key valid from now for 100000 ms, signs
    container SAS values (permission \<^verbatim>\<open>r\<close>, start now, expiry now + 86400, all IPv4
    addresses, HTTPS only) and serialises them as a query string;
  \<^enum> the entry point (lines 51--84): awaits the token once, mounts
    http-proxy-middleware at \<^verbatim>\<open>"/" + StorageContainer\<close> with target
    \<^verbatim>\<open>https://<account>.blob.core.windows.net\<close>, \<^verbatim>\<open>changeOrigin\<close> and a
    \<^verbatim>\<open>pathRewrite\<close> that logs and appends \<^verbatim>\<open>"?" + token\<close> to every forwarded path,
    reads the TLS files, and listens on \<^verbatim>\<open>local.teams.office.com:443\<close>.
  The parts interact through two values only: the configuration record, read by the
  other two, and the token string, produced once by the provisioner and read by every
  request the proxy forwards.

  \<^bold>\<open>Theories.\<close>
  \<^item> \<open>Prelude\<close>: the model's types (\<open>env\<close>, \<open>ms\<close>), the error datatype with one
    constructor per place the program can throw or reject, JavaScript falsiness,
    ASCII case folding, and split/join at a separator with their round trips.
  \<^item> \<open>Config\<close> (lines 14--27): \<open>dotenv_config\<close>, the \<open>config\<close> record,
    \<open>load_config\<close>; lemmas characterise success and failure exactly and show
    that the process environment takes precedence over \<^verbatim>\<open>.env\<close>.
  \<^item> \<open>Query_String\<close>, \<open>Js_Date\<close>, \<open>Sas_Sdk\<close>: the behaviour of
    \<^verbatim>\<open>@azure/storage-blob\<close> and of the JavaScript built-ins the provisioner relies
    on: \<^verbatim>\<open>encodeURIComponent\<close>, the SDK's query-string writer and a reader for it
    (round trip: reading a written query string gives exactly the defined, non-empty
    parameters), \<^verbatim>\<open>toISOString\<close> cut to seconds, \<^verbatim>\<open>ContainerSASPermissions\<close>,
    \<^verbatim>\<open>generateBlobSASQueryParameters\<close> and \<^verbatim>\<open>SASQueryParameters.toString\<close>.
    \<open>Sas_Sdk\<close> writes out the string-to-sign of a user delegation container SAS
    field by field; only HMAC-SHA256 is a parameter. It also holds the storage
    service's reading of the \<^verbatim>\<open>sip\<close> range as a pair of 32-bit words
    (\<^verbatim>\<open>HOL-Library.Word\<close>). Lemmas: \<open>parse\<close> inverts \<open>toString\<close>, and
    \<open>parse(s).toString()\<close> equals the reference \<open>filter\<close> over the canonical letters
    \<^verbatim>\<open>racwdxltmeiyf\<close> (the first invalid letter is the error otherwise); the
    string-to-sign splits back into the token's parameters, so the signature binds
    them; a written query string holds only URL-safe characters; a written date only
    digits and \<^verbatim>\<open>-+T:Z\<close>.
  \<^item> \<open>Identity\<close> (lines 30--34): \<^verbatim>\<open>DefaultAzureCredential\<close> as the
    \<^verbatim>\<open>ChainedTokenCredential\<close> loop over its sources' answers (a parameter: the
    sources depend on the release and the host), counting the sources asked, and
    \<^verbatim>\<open>getUserDelegationKey\<close> made with its token. Lemmas: the first token wins
    and later sources are not asked; an error other than unavailability ends the
    chain; with no token the chain fails with the collected errors.
  \<^item> \<open>Provisioner\<close> (lines 29--49): \<open>getReadOnlySasQueryParameter\<close> over a
    \<open>world\<close> record holding the clock (one reading per \<^verbatim>\<open>new Date()\<close>, in evaluation
    order), the key service and the signer; a closed form of the whole run; the token
    decodes to a read-only, HTTPS-only container SAS for all IPv4 addresses;
    the validity window; when the SAS outlives the key that signs it.
  \<^item> \<open>Proxy\<close> (lines 53--65): requests and upstream requests as records, the express
    mount test, \<open>pathRewrite\<close>, the proxy options, http-proxy-middleware's forwarding
    and the application; a request under the mount is forwarded with the token
    appended and the storage host, any other gets the 404; the rewritten path's
    query is the client's query, \<^verbatim>\<open>?\<close> and the token, or the token alone.
    \<open>hpm_created_line\<close> is the \<^verbatim>\<open>[HPM] Proxy created\<close> line the middleware's
    constructor prints (line 57).
  \<^item> \<open>Http_Proxy\<close> (lines 57--64, library internals): what http-proxy sends to
    the storage service for the rewritten URL: Node's legacy \<^verbatim>\<open>url.parse\<close> path
    (trimming, backslashes, the fast-path pattern, auto-escaping, the fragment cut
    off; for targets beginning with a slash) and \<^verbatim>\<open>common.urlJoin\<close> with the
    target's path \<^verbatim>\<open>/\<close> (runs of slashes collapsed). Lemmas: a plain URL keeps the
    token as its whole query; a URL with a fragment loses the token. The answer
    the client gets (\<open>proxy_response\<close>): express's 404 off the mount, the
    storage service's answer relayed, or, when the storage request fails,
    http-proxy-middleware's \<^verbatim>\<open>defaultErrorHandler\<close> (no \<^verbatim>\<open>onError\<close> is given):
    502, 504 or 500 by the error's code, body naming the host and the rewritten
    URL. Lemma: the error statuses and body, for every code.
  \<^item> \<open>Startup\<close> (lines 16--84): the process as an inductive step relation over
    phases \<open>Loading\<close>, \<open>Provisioning\<close>, \<open>Binding\<close>, \<open>Serving\<close>, \<open>Crashed\<close>,
    one rule per atomic block of the code (module load, the awaited provisioning,
    the synchronous setup up to \<^verbatim>\<open>listen\<close>, one request); reachable states and a
    phase-indexed invariant proved by rule induction; serving is stateless along
    any run of steps (\<open>rtranclp\<close> of the step relation); startup terminates:
    a rank that every startup block decreases puts each run in \<open>Serving\<close> or
    \<open>Crashed\<close> after three steps (\<open>relpowp\<close>); a rejected provisioning has one
    step, to \<open>Crashed\<close> with its error, and none after; every forwarded request has
    left its console line with the token (the token reaches the logs); the console
    starts with the \<^verbatim>\<open>[HPM] Proxy created\<close> line, followed by the \<^verbatim>\<open>listening\<close>
    line when the process serves (\<open>console_order\<close>, by rule induction); a run of
    requests (\<open>fold request_step\<close>) forwards and logs exactly the mounted ones in
    arrival order.
  \<^item> This theory: the properties that span the components: a request served in
    any reachable serving state, down to the path http-proxy sends to the storage
    service; a client URL with its own query loses the token's
    \<^verbatim>\<open>sv\<close> parameter, glued to the client's last value; a credential chain with
    no available source keeps every run from serving; in any serving state a
    failed storage request sends the provisioned token to the client in the
    error body. \<open>serve_run\<close> runs requests with the outcomes of their storage
    requests through the serving process (\<open>process_response\<close>, lines 67--74):
    each answer depends on its own request and outcome only, and the process
    keeps serving with the same token whatever failed.

  \<^bold>\<open>External behaviour.\<close> The world and the host are records of functions: clock
  readings, the key service's answer, file contents, whether TLS accepts the key
  material, whether the port can be bound. Theorems hold for every such world; the
  only hypothesis on the clock, where one is needed, is that it does not go back.
  No fuel is needed: every function of the model is total by structural recursion.

  \<^bold>\<open>Not modelled.\<close> TLS itself, sockets and the HTTP wire format, the headers
  and streaming of the response relayed from the storage service (its status and
  body are passed through as one value), errors after the response has started
  (\<^verbatim>\<open>headersSent\<close>), the error line http-proxy-middleware's logger writes, \<^verbatim>\<open>url.parse\<close> of targets beginning with
  \<^verbatim>\<open>//user@host\<close> (never under the mount), the month and day bounds of the
  days-to-civil conversion (its nested divisions are beyond \<open>presburger\<close>; the
  date strings are only shown to consist of digits and \<^verbatim>\<open>-+T:Z\<close>), HMAC-SHA256 (a parameter; the theorems
  hold for every keyed function), how each credential source of
  \<^verbatim>\<open>@azure/identity\<close> obtains its token (its answer is a parameter), the module
  imports of lines 1--13 (no behaviour), the \<^verbatim>\<open>Host\<close>-independent parts of http-proxy's outgoing request (headers
  other than \<^verbatim>\<open>Host\<close>), and concurrency between requests (each request is one atomic
  step: the handler shares no mutable state but the console), express mount paths
  with characters that \<^verbatim>\<open>path-to-regexp\<close> interprets (\<^verbatim>\<open>:\<close>, \<^verbatim>\<open>*\<close>, \<^verbatim>\<open>(\<close>, ...)
  and non-ASCII case folding (container names are lowercase letters, digits and
  hyphens), and http-proxy-middleware's debug-level log lines (not printed at the
  default level \<^verbatim>\<open>info\<close>).
\<close>

section \<open>The running server\<close>



section \<open>Properties across the components\<close>

text \<open>
  C7. End to end: in any serving state of any run, a request under the container's
  mount is forwarded to the account's blob endpoint with the storage \<^verbatim>\<open>Host\<close>, its
  URL followed by \<^verbatim>\<open>?\<close> and exactly the token that provisioning from the run's
  initial world produced; the token the process holds is unchanged by the request.
\<close>

theorem served_request_end_to_end:
  assumes "reachable h w s" and "phase s = Serving"
    and "load_config (merged_env h) = Inr c"
    and "mount_matches (mount_path (StorageContainer c)) (url_pathname (req_url req))"
  shows "\<exists>tok. fst (getReadOnlySasQueryParameter (StorageAccount c) (StorageContainer c) w) = Inr tok \<and>
           forwarded (request_step req s) =
             forwarded s @ [\<lparr>up_origin = ''https://'' @ blob_host (StorageAccount c),
                             up_method = req_method req, up_path = req_url req @ ''?'' @ tok,
                             up_host = origin_host (''https://'' @ blob_host (StorageAccount c))\<rparr>] \<and>
           sas (request_step req s) = Some tok"
proof -
  obtain c' t where c': "loaded s = Some c'" "load_config (merged_env h) = Inr c'" and t: "sas s = Some t"
    and tok: "fst (getReadOnlySasQueryParameter (StorageAccount c') (StorageContainer c') w) = Inr t"
    using reachable_Serving [OF assms(1,2)] by blast
  from c'(2) assms(3) have "c' = c" by simp
  with c'(1) t tok assms(4) show ?thesis
    by (simp add: request_step_def serve_request_eq)
qed

theorem served_request_end_to_end_witness:
  "reachable example_host example_world example_booted \<and> phase example_booted = Serving \<and>
   load_config (merged_env example_host) = Inr example_config \<and>
   mount_matches (mount_path (StorageContainer example_config)) (url_pathname (req_url example_request)) \<and>
   fst (getReadOnlySasQueryParameter ''contoso'' ''sourcemaps'' example_world) = Inr example_token \<and>
   forwarded (request_step example_request example_booted) =
     [\<lparr>up_origin = ''https://'' @ blob_host ''contoso'', up_method = ''GET'',
       up_path = ''/sourcemaps/app.js.map?'' @ example_token,
       up_host = origin_host (''https://'' @ blob_host ''contoso'')\<rparr>]"
proof -
  have p: "phase example_booted = Serving" by (simp add: example_booted_eq init_proc_def)
  from served_request_end_to_end [OF example_booted_reachable p example_config_loaded example_request_mounted]
  have "\<exists>tok. fst (getReadOnlySasQueryParameter (StorageAccount example_config)
                   (StorageContainer example_config) example_world) = Inr tok"
    by blast
  then show ?thesis
    using example_booted_reachable p example_config_loaded example_request_mounted example_provision
      example_served_forwarded
    by simp
qed

text \<open>
  C32. With a credential chain in which every source is unavailable, no run of the
  process ever serves: the key request of line 34 fails, the entry point's promise
  rejects, and the process never listens nor forwards a request.
\<close>

theorem no_credential_never_serves:
  assumes "reachable h w s"
    and "delegation_key_service w = getUserDelegationKey sources service"
    and "\<forall>a\<in>set sources. passes_turn a"
  shows "phase s \<noteq> Serving \<and> listener s = None \<and> forwarded s = []"
proof (cases "phase s = Serving")
  case True
  then obtain c :: config and t where "fst (getReadOnlySasQueryParameter (StorageAccount c) (StorageContainer c) w) = Inr t"
    using reachable_Serving [OF assms(1) True] by blast
  moreover obtain msg where
    "getUserDelegationKey sources service (blobStorageUrl (StorageAccount c)) (clock w (reads w))
       (clock w (Suc (reads w)) + 100000) = Inl msg"
    using getUserDelegationKey_no_token [OF assms(3)] by blast
  ultimately show ?thesis
    using assms(2) by (simp add: getReadOnlySasQueryParameter_eq Let_def)
next
  case False
  with reachable_not_Serving [OF assms(1)] show ?thesis by simp
qed

theorem no_credential_never_serves_witness:
  "reachable example_host no_credential_world
     (provision_step (load_step example_host (init_proc no_credential_world))) \<and>
   phase (provision_step (load_step example_host (init_proc no_credential_world))) =
     Crashed (KeyServiceError ''AggregateAuthenticationError: ChainedTokenCredential authentication failed.'') \<and>
   listener (provision_step (load_step example_host (init_proc no_credential_world))) = None"
proof -
  let ?s1 = "load_step example_host (init_proc no_credential_world)"
  have s1: "?s1 = (init_proc no_credential_world)\<lparr>phase := Provisioning, loaded := Some example_config\<rparr>"
    using example_config_loaded by (simp add: load_step_def merged_env_def)
  have r1: "reachable example_host no_credential_world ?s1"
    by (rule reachable.step [OF reachable.start proc_step.load]) (simp add: init_proc_def)
  have r2: "reachable example_host no_credential_world (provision_step ?s1)"
    by (rule reachable.step [OF r1 proc_step.provision]) (simp add: s1)
  have k: "delegation_key_service no_credential_world = getUserDelegationKey
      [Inl (CredentialUnavailableError ''EnvironmentCredential is unavailable.'')]
      (\<lambda>token url start expiry. Inr example_key)"
    by (simp add: no_credential_world_def)
  have h: "\<forall>a\<in>set [Inl (CredentialUnavailableError ''EnvironmentCredential is unavailable.'')].
      passes_turn a"
    by (simp add: passes_turn_def chain_skips_def)
  have p: "phase (provision_step ?s1) =
     Crashed (KeyServiceError ''AggregateAuthenticationError: ChainedTokenCredential authentication failed.'')"
    by (simp only: s1) (simp add: provision_step_def getReadOnlySasQueryParameter_eq k init_proc_def
        getUserDelegationKey_def DefaultAzureCredential_getToken_def chain_skips_def
        chain_error_message_def credential_error_message_def)
  show ?thesis
    using no_credential_never_serves [OF r2 k h] r2 p by simp
qed

text \<open>
  C34. A client URL that already has a query breaks the token: the storage service
  reads the client's query followed by \<^verbatim>\<open>?\<close> and the token, which splits at
  \<^verbatim>\<open>&\<close> into the client's parameters, the client's last value with
  \<^verbatim>\<open>?sv=<version>\<close> glued to it, and the token's other parameters. The token's
  \<^verbatim>\<open>sv\<close> is never a parameter of its own, so the signed version is missing.
\<close>

theorem client_query_swallows_version:
  assumes "fst (getReadOnlySasQueryParameter a c w) = Inr tok"
    and "path = u @ CHR ''?'' # q" and "CHR ''?'' \<notin> set u"
  shows "\<exists>rest. after_sep CHR ''?'' (fst (pathRewrite tok path)) = Some (q @ CHR ''?'' # tok) \<and>
           tok = ''sv='' @ SERVICE_VERSION @ CHR ''&'' # rest \<and>
           split_on CHR ''&'' (q @ CHR ''?'' # tok) =
             butlast (split_on CHR ''&'' q) @
             [last (split_on CHR ''&'' q) @ ''?sv='' @ SERVICE_VERSION] @ split_on CHR ''&'' rest"
proof -
  obtain k where "tok = SASQueryParameters_toString (provisioned_parameters (w\<lparr>reads := reads w + 4\<rparr>)
      k a c (clock w (reads w + 2)) (clock w (reads w + 3)))"
    using getReadOnlySasQueryParameter_Inr [OF assms(1)] by blast
  then obtain rest where r: "tok = ''sv='' @ SERVICE_VERSION @ CHR ''&'' # rest"
    using provisioned_token_starts_with_version by blast
  have "split_on CHR ''&'' (''?sv='' @ SERVICE_VERSION @ CHR ''&'' # rest) =
          (''?sv='' @ SERVICE_VERSION) # split_on CHR ''&'' rest"
    using split_on_append_sep [of "CHR ''&''" "''?sv='' @ SERVICE_VERSION" rest]
    by (simp add: SERVICE_VERSION_def)
  then have "split_on CHR ''&'' (q @ CHR ''?'' # tok) =
             butlast (split_on CHR ''&'' q) @
             [last (split_on CHR ''&'' q) @ ''?sv='' @ SERVICE_VERSION] @ split_on CHR ''&'' rest"
    using split_on_append [of "CHR ''&''" q "''?sv='' @ SERVICE_VERSION @ CHR ''&'' # rest"]
    by (simp add: r)
  with r pathRewrite_query_glued [OF assms(2,3)] show ?thesis by blast
qed

theorem client_query_swallows_version_witness:
  "fst (getReadOnlySasQueryParameter ''contoso'' ''sourcemaps'' example_world) = Inr example_token \<and>
   hd (split_on CHR ''&'' (''v=3'' @ CHR ''?'' # example_token)) = ''v=3?sv=2020-10-02''"
proof -
  have t: "fst (getReadOnlySasQueryParameter ''contoso'' ''sourcemaps'' example_world) = Inr example_token"
    by (simp add: example_provision)
  have p: "''/sourcemaps/app.js.map?v=3'' = ''/sourcemaps/app.js.map'' @ CHR ''?'' # ''v=3''"
    by simp
  have u: "CHR ''?'' \<notin> set ''/sourcemaps/app.js.map''" by simp
  from client_query_swallows_version [OF t p u] obtain rest where
    "split_on CHR ''&'' (''v=3'' @ CHR ''?'' # example_token) =
       butlast (split_on CHR ''&'' ''v=3'') @ [last (split_on CHR ''&'' ''v=3'') @ ''?sv='' @ SERVICE_VERSION] @
       split_on CHR ''&'' rest"
    by blast
  with t show ?thesis by (simp add: SERVICE_VERSION_def)
qed

text \<open>
  C35. End to end to the storage service: in any serving state, for a request under
  the mount whose URL has no query, fragment, whitespace or backslash, the request
  http-proxy sends has the client's path (runs of slashes collapsed) followed by
  \<^verbatim>\<open>?\<close> and exactly the token provisioning returned: the token is the whole query
  the storage service reads.
\<close>

theorem storage_receives_token:
  assumes "reachable h w s" and "phase s = Serving"
    and "load_config (merged_env h) = Inr c"
    and "mount_matches (mount_path (StorageContainer c)) (url_pathname (req_url req))"
    and "take 3 (req_url req) \<noteq> ''///''"
    and "\<forall>x\<in>set (req_url req). \<not> regex_space x \<and> x \<noteq> CHR ''?'' \<and> x \<noteq> CHR ''#'' \<and> x \<noteq> CHR 0x5C"
  shows "\<exists>tok. fst (getReadOnlySasQueryParameter (StorageAccount c) (StorageContainer c) w) = Inr tok \<and>
           map (\<lambda>up. outgoing_path (up_path up))
             (drop (length (forwarded s)) (forwarded (request_step req s))) =
           [replace_first ''https:/'' ''https://'' (replace_first ''http:/'' ''http://''
              (collapse_slashes (req_url req))) @ CHR ''?'' # tok]"
proof -
  obtain c' t where c': "loaded s = Some c'" "load_config (merged_env h) = Inr c'" and t: "sas s = Some t"
    and tok: "fst (getReadOnlySasQueryParameter (StorageAccount c') (StorageContainer c') w) = Inr t"
    using reachable_Serving [OF assms(1,2)] by blast
  from c'(2) assms(3) have cc: "c' = c" by simp
  obtain k where td: "t = SASQueryParameters_toString (provisioned_parameters (w\<lparr>reads := reads w + 4\<rparr>)
      k (StorageAccount c) (StorageContainer c) (clock w (reads w + 2)) (clock w (reads w + 3)))"
    using getReadOnlySasQueryParameter_Inr [OF tok [unfolded cc]] by blast
  have safe: "\<forall>x\<in>set t. uri_unreserved x \<or> x \<in> set ''%=&''"
    unfolding td SASQueryParameters_toString_def by (rule query_string_chars)
  have slash: "take 1 (req_url req) = ''/''"
    using mount_matches_slash [OF assms(4)] .
  have "drop (length (forwarded s)) (forwarded (request_step req s)) =
          [\<lparr>up_origin = ''https://'' @ blob_host (StorageAccount c), up_method = req_method req,
            up_path = req_url req @ ''?'' @ t,
            up_host = origin_host (''https://'' @ blob_host (StorageAccount c))\<rparr>]"
    using assms(4) by (simp add: request_step_appended c'(1) t cc serve_request_eq)
  then show ?thesis
    using tok cc outgoing_path_plain [OF slash assms(5,6) safe] by simp
qed

theorem storage_receives_token_witness:
  "map (\<lambda>up. outgoing_path (up_path up))
     (drop (length (forwarded example_booted)) (forwarded (request_step example_request example_booted))) =
   [''/sourcemaps/app.js.map?'' @ example_token]"
proof -
  have p: "phase example_booted = Serving" by (simp add: example_booted_eq)
  have u: "req_url example_request = ''/sourcemaps/app.js.map''"
    by (simp add: example_request_def)
  have h5: "take 3 (req_url example_request) \<noteq> ''///''" by (simp add: u)
  have h6: "\<forall>x\<in>set (req_url example_request).
      \<not> regex_space x \<and> x \<noteq> CHR ''?'' \<and> x \<noteq> CHR ''#'' \<and> x \<noteq> CHR 0x5C"
    by (simp add: u regex_space_def)
  have fx: "replace_first ''https:/'' ''https://'' (replace_first ''http:/'' ''http://''
              (collapse_slashes (req_url example_request))) = ''/sourcemaps/app.js.map''"
    by (simp add: u)
  from storage_receives_token [OF example_booted_reachable p example_config_loaded
      example_request_mounted h5 h6]
  show ?thesis
    using example_provision fx by simp
qed

text \<open>
  C40. In any serving state of any run, a mounted request whose storage request fails
  is answered by the error handler with a body holding the client's host, its URL,
  \<^verbatim>\<open>?\<close> and exactly the token that provisioning produced and the process holds:
  the credential the proxy exists to keep from clients is sent to them.
\<close>

theorem error_response_discloses_token:
  assumes "reachable h w s" and "phase s = Serving"
    and "load_config (merged_env h) = Inr c"
    and "mount_matches (mount_path (StorageContainer c)) (url_pathname (req_url req))"
  shows "\<exists>tok. fst (getReadOnlySasQueryParameter (StorageAccount c) (StorageContainer c) w) = Inr tok \<and>
           loaded s = Some c \<and> sas s = Some tok \<and>
           proxy_response c tok req (UpstreamFailed code) =
             ProxyError (hpm_error_status code)
               (''Error occurred while trying to proxy: '' @ req_host req @ req_url req @ ''?'' @ tok)"
proof -
  obtain c' t where c': "loaded s = Some c'" "load_config (merged_env h) = Inr c'" and t: "sas s = Some t"
    and tok: "fst (getReadOnlySasQueryParameter (StorageAccount c') (StorageContainer c') w) = Inr t"
    using reachable_Serving [OF assms(1,2)] by blast
  from c'(2) assms(3) have "c' = c" by simp
  with c'(1) t tok proxy_response_failed [OF assms(4)] show ?thesis by auto
qed

theorem error_response_discloses_token_witness:
  "reachable example_host example_world example_booted \<and> phase example_booted = Serving \<and>
   load_config (merged_env example_host) = Inr example_config \<and>
   mount_matches (mount_path (StorageContainer example_config)) (url_pathname (req_url example_request)) \<and>
   sas example_booted = Some example_token \<and>
   proxy_response example_config example_token example_request (UpstreamFailed (Some ''ECONNRESET'')) =
     ProxyError 504 (''Error occurred while trying to proxy: '' @ req_host example_request @
                     ''/sourcemaps/app.js.map?'' @ example_token)"
proof -
  have p: "phase example_booted = Serving" by (simp add: example_booted_eq init_proc_def)
  have u: "req_url example_request = ''/sourcemaps/app.js.map''" by (simp add: example_request_def)
  have s: "hpm_error_status (Some ''ECONNRESET'') = 504" by code_simp
  have a: "StorageAccount example_config = ''contoso''" "StorageContainer example_config = ''sourcemaps''"
    by (simp_all add: example_config_def)
  obtain tok where g: "fst (getReadOnlySasQueryParameter (StorageAccount example_config)
                        (StorageContainer example_config) example_world) = Inr tok"
      and r: "sas example_booted = Some tok \<and>
      proxy_response example_config tok example_request (UpstreamFailed (Some ''ECONNRESET'')) =
        ProxyError (hpm_error_status (Some ''ECONNRESET''))
          (''Error occurred while trying to proxy: '' @ req_host example_request @
           req_url example_request @ ''?'' @ tok)"
    using error_response_discloses_token
      [OF example_booted_reachable p example_config_loaded example_request_mounted] by blast
  from g have "tok = example_token" using example_provision a by simp
  with r show ?thesis
    using example_booted_reachable p example_config_loaded example_request_mounted u s by simp
qed



end
